theory Spec2Isabelle
  imports Complex_Main "HOL-Library.AList"
begin

section \<open>Data model of the distributed job manager\<close>

text \<open>
  The embedding follows \<^verbatim>\<open>dlrover/python/master/node/dist_job_manager.py\<close>.
  The string constants of \<^verbatim>\<open>dlrover.python.common.constants\<close> are datatypes here,
  one constructor for each constant the job manager reads.
\<close>

datatype node_type =
  NodeType_MASTER | NodeType_PS | NodeType_WORKER | NodeType_EVALUATOR
| NodeType_CHIEF | NodeType_DLROVER_MASTER

datatype node_status =
  NodeStatus_INITIAL | NodeStatus_PENDING | NodeStatus_RUNNING | NodeStatus_SUCCEEDED
| NodeStatus_FAILED | NodeStatus_FINISHED | NodeStatus_DELETED

text \<open>
  The event types of the watcher (added, modified, deleted), the string \<^verbatim>\<open>"exit"\<close> that
  \<^verbatim>\<open>_process_event\<close> compares with, and the statuses a training agent reports.
\<close>

datatype node_event_type =
  NodeEventType_ADDED | NodeEventType_MODIFIED | NodeEventType_DELETED | NodeEventType_exit
| NodeEventType_SUCCEEDED_EXITED | NodeEventType_FAILED_EXITED
| NodeEventType_NODE_CHECK_SUCCEEDED | NodeEventType_NODE_CHECK_FAILED

datatype node_exit_reason =
  NodeExitReason_none | NodeExitReason_KILLED | NodeExitReason_OOM
| NodeExitReason_FATAL_ERROR | NodeExitReason_UNKNOWN_ERROR | NodeExitReason_HARDWARE_ERROR
| NodeExitReason_RELAUNCHED | NodeExitReason_NO_HEARTBEAT | NodeExitReason_DIAG_FAIL

datatype job_stage =
  JobStage_JOB_INIT | JobStage_JOB_RUNNING | JobStage_JOB_STOPPING | JobStage_JOB_STOPPED

datatype distribution_strategy =
  DistributionStrategy_PS | DistributionStrategy_CUSTOM | DistributionStrategy_ALLREDUCE
| DistributionStrategy_LOCAL

text \<open>\<^verbatim>\<open>JobExitReason\<close>; the last constructor is the empty string of \<^verbatim>\<open>return False, "", ""\<close>.\<close>

datatype job_exit_reason =
  JobExitReason_NODE_CHECK_FAILED | JobExitReason_PENDING_TIMEOUT
| JobExitReason_UNCOMPLETED_TIMEOUT | JobExitReason_empty

text \<open>Times are seconds since the epoch, with exact arithmetic.\<close>

type_synonym timestamp = real

record node_resource =
  memory :: int

text \<open>
  \<^verbatim>\<open>Node\<close>: the attributes the job manager reads or writes. \<^verbatim>\<open>start_time\<close> and
  \<^verbatim>\<open>create_time\<close> are datetimes or \<^verbatim>\<open>None\<close>; \<^verbatim>\<open>reported_status\<close> holds the status
  last reported by the agent (the time stamp stored beside it is left out).
\<close>

record node =
  type_n :: node_type
  id_n :: int
  name :: "string option"
  rank_index :: int
  status :: node_status
  exit_reason :: node_exit_reason
  relaunch_count :: int
  max_relaunch_count :: int
  relaunchable :: bool
  critical :: bool
  is_released :: bool
  is_recovered_oom :: bool
  config_resource :: node_resource
  create_time :: "timestamp option"
  start_time :: "timestamp option"
  heartbeat_time :: timestamp
  host_name :: "string option"
  host_ip :: "string option"
  restart_training :: bool
  reported_status :: "node_event_type option"
  service_addr :: "string option"
  eval_time :: int

record node_event =
  event_type :: node_event_type
  event_node :: node

text \<open>\<^verbatim>\<open>NodeStateFlow\<close>: one row of the state-flow table.\<close>

record node_state_flow =
  from_status :: node_status
  to_status :: node_status
  should_relaunch :: bool

text \<open>
  \<^verbatim>\<open>ScalePlan\<close>: the node groups with the count each declares, the nodes to launch,
  the nodes to remove, and the parameter-server addresses.
\<close>

record scale_plan =
  node_group_resources :: "(node_type \<times> int) list"
  launch_nodes :: "node list"
  remove_nodes :: "node list"
  ps_addrs :: "string list"

definition ScalePlan :: scale_plan where
  "ScalePlan = \<lparr>node_group_resources = [], launch_nodes = [], remove_nodes = [], ps_addrs = []\<rparr>"

text \<open>
  The unique labels of a pod (\<^verbatim>\<open>_get_pod_unique_labels\<close>), and what the cluster answers
  about a pod: its phase and whether it carries a deletion time stamp.
\<close>

record pod_labels =
  label_job :: string
  label_replica_type :: node_type
  label_rank_index :: int
  label_replica_index :: int

record pod =
  phase :: node_status
  deletion_timestamp :: "timestamp option"

text \<open>
  The reason of a refusal to relaunch. The source builds it with format strings; the model
  keeps which text it is and the numbers put into it. \<^verbatim>\<open>Msg_empty\<close> is \<^verbatim>\<open>""\<close>.
\<close>

datatype relaunch_msg =
  Msg_empty
| Msg_job_stopping
| Msg_fatal_error
| Msg_already_relaunched
| Msg_beyond_memory int int
| Msg_relaunched_beyond int int
| Msg_exhausted int int

text \<open>The levels of \<^verbatim>\<open>TrainingExceptionLevel\<close> the job manager passes on.\<close>

datatype training_exception_level =
  TrainingExceptionLevel_RDZV_ERROR | TrainingExceptionLevel_ERROR
| TrainingExceptionLevel_NODE_ERROR

text \<open>
  What the job manager hands to its event reporter, and the errors it passes on to
  \<^verbatim>\<open>process_error\<close> of its base class.
\<close>

datatype report =
  Report_not_relaunch "string option" relaunch_msg
| Report_status_change node node_status node_status
| Report_node_relaunch node node
| Report_early_stop string
| Report_no_heartbeat node real
| Report_failed_node int
| Process_error node int training_exception_level

text \<open>
  The four handlers of a \<^verbatim>\<open>NodeEventCallback\<close>. What a registered callback does is
  outside the job manager; the model keeps which handler is run on which node.
\<close>

datatype callback_kind = On_started | On_succeeded | On_failed | On_deleted

text \<open>
  The node store of the job context: node type to node id to node, both dictionaries in
  insertion order.
\<close>

type_synonym job_nodes = "(node_type \<times> (int \<times> node) list) list"

text \<open>
  The collaborators and constants that live outside \<^verbatim>\<open>dist_job_manager.py\<close>:
  \<^verbatim>\<open>NodeResourceLimit.MAX_MEMORY\<close>, the global \<^verbatim>\<open>relaunch_always\<close>, the state-flow
  table \<^verbatim>\<open>get_node_state_flow\<close>, the cluster client, the resource optimizer (the memory it
  gives an out-of-memory node), the relaunch of the per-type node managers (the plan and
  the store with the new node), the parameter-server addresses, the evaluation time of
  the performance monitor, and \<^verbatim>\<open>Node.exited\<close>.
\<close>

record env =
  MAX_MEMORY :: int
  relaunch_always :: bool
  get_node_state_flow :: "node_status \<Rightarrow> node_event_type \<Rightarrow> node_status \<Rightarrow> node_state_flow option"
  list_namespaced_pod :: "pod_labels \<Rightarrow> pod list option"
  adjust_oom_resource :: "node \<Rightarrow> int"
  relaunch_node :: "node_type \<Rightarrow> node \<Rightarrow> bool \<Rightarrow> job_nodes \<Rightarrow> scale_plan \<times> job_nodes"
  get_ps_addrs :: "job_nodes \<Rightarrow> string list"
  get_worker_eval_time :: "int \<Rightarrow> int"
  exited :: "node \<Rightarrow> bool"

text \<open>
  The state of the \<^verbatim>\<open>DistributedJobManager\<close> and of the job context it shares, with the
  traces of its calls: the plans passed to \<^verbatim>\<open>_scaler.scale\<close>, the reports, the nodes
  handed to the optimizer, the label queries sent to the cluster and the handlers of the
  registered callbacks run (which handler, on which node). \<^verbatim>\<open>worker_num\<close> and
  \<^verbatim>\<open>ps_num\<close> are the counts of the job resource.
\<close>

record manager =
  job_name :: string
  distribution_strategy :: distribution_strategy
  worker_num :: int
  ps_num :: int
  remove_exited_node :: bool
  wait_pending_relaunch :: bool
  enable_relaunch_node :: bool
  pending_relaunch_count :: int
  stopped :: bool
  job_nodes :: job_nodes
  job_stage :: job_stage
  scaled :: "scale_plan list"
  reports :: "report list"
  oom_adjusted :: "node list"
  pod_queries :: "pod_labels list"
  callback_calls :: "(callback_kind \<times> node) list"

datatype error = KeyError | UnboundLocalError

text \<open>
  How a call ends: it returns, it raises, or \<^verbatim>\<open>os._exit\<close> ends the process. Each
  carries the state reached.
\<close>

datatype outcome = Done manager | Raise error manager | ProcessExit manager

fun state_of :: "outcome \<Rightarrow> manager" where
  "state_of (Done st) = st"
| "state_of (Raise e st) = st"
| "state_of (ProcessExit st) = st"

section \<open>The relaunch policy\<close>

definition MAX_POD_RELAUNCH_COUNT :: int where
  "MAX_POD_RELAUNCH_COUNT = 5"

text \<open>
  \<^verbatim>\<open>__init__\<close>: the relaunch budgets of workers and parameter servers are the configured
  restart counts capped by \<^verbatim>\<open>_MAX_POD_RELAUNCH_COUNT\<close>.
\<close>

definition relaunch_on_worker_failure :: "int \<Rightarrow> int" where
  "relaunch_on_worker_failure worker_restart_count = min worker_restart_count MAX_POD_RELAUNCH_COUNT"

definition ps_relaunch_max_num :: "int \<Rightarrow> int" where
  "ps_relaunch_max_num ps_restart_count = min ps_restart_count MAX_POD_RELAUNCH_COUNT"

definition is_positive_exit :: "node_exit_reason \<Rightarrow> bool" where
  "is_positive_exit r = (if r \<in> set [NodeExitReason_DIAG_FAIL, NodeExitReason_NO_HEARTBEAT] then True else False)"

definition is_all_reduce_type_job :: "manager \<Rightarrow> bool" where
  "is_all_reduce_type_job st = (distribution_strategy st = DistributionStrategy_ALLREDUCE)"

text \<open>
  The \<^verbatim>\<open>if\<close>/\<open>elif\<close> chain of \<^verbatim>\<open>_should_relaunch\<close>, entered when the first conjunction
  holds: the verdict, the message, the node and the state after it.
\<close>

definition recheck_should_relaunch :: "env \<Rightarrow> manager \<Rightarrow> node \<Rightarrow> bool \<times> relaunch_msg \<times> node \<times> manager" where
  "recheck_should_relaunch e st n =
    (if job_stage st = JobStage_JOB_STOPPING then (False, Msg_job_stopping, n, st)
     else if exit_reason n = NodeExitReason_FATAL_ERROR \<and> \<not> relaunch_always e
       then (False, Msg_fatal_error, n, st)
     else if exit_reason n = NodeExitReason_RELAUNCHED then (False, Msg_already_relaunched, n, st)
     else if exit_reason n = NodeExitReason_OOM then
       (let mem = memory (config_resource n) in
        if is_all_reduce_type_job st then (False, Msg_empty, n, st)
        else if mem \<ge> MAX_MEMORY e then (False, Msg_beyond_memory mem (MAX_MEMORY e), n, st)
        else if relaunch_count n \<ge> max_relaunch_count n
          then (False, Msg_relaunched_beyond (relaunch_count n) (max_relaunch_count n), n, st)
        else
          (let n1 = n\<lparr>is_recovered_oom := True\<rparr>
           in (True, Msg_empty,
               n1\<lparr>config_resource := (config_resource n1)\<lparr>memory := adjust_oom_resource e n1\<rparr>\<rparr>,
               st\<lparr>oom_adjusted := oom_adjusted st @ [n1]\<rparr>)))
     else if exit_reason n \<noteq> NodeExitReason_KILLED then
       (if relaunch_count n \<ge> max_relaunch_count n
          then (False, Msg_exhausted (relaunch_count n) (max_relaunch_count n), n, st)
        else (True, Msg_empty, n, st))
     else (True, Msg_empty, n, st))"

text \<open>
  \<^verbatim>\<open>_should_relaunch\<close> (\<^verbatim>\<open>should_relaunch\<close> is the field of the flow here): the
  verdict, the node as it leaves the call, and the state.
\<close>

definition should_relaunch_node :: "env \<Rightarrow> manager \<Rightarrow> node \<Rightarrow> node_state_flow \<Rightarrow> bool \<times> node \<times> manager" where
  "should_relaunch_node e st n flow =
    (let (sr, msg, n1, st1) =
           (if should_relaunch flow \<and> enable_relaunch_node st \<and> relaunchable n
            then recheck_should_relaunch e st n
            else (False, Msg_empty, n, st));
         n2 = (if sr then n1\<lparr>relaunch_count := relaunch_count n1 + 1\<rparr> else n1);
         st2 = (if \<not> sr \<and> msg \<noteq> Msg_empty
                then st1\<lparr>reports := reports st1 @ [Report_not_relaunch (name n2) msg]\<rparr>
                else st1)
     in (sr, n2, st2))"

section \<open>The node store\<close>

text \<open>
  Modelled from the spec: \<^verbatim>\<open>job_context.py\<close> is not under src/. The store is the map
  from type and id to the node; \<^verbatim>\<open>job_node\<close> looks a node up (\<^verbatim>\<open>None\<close> when it is
  missing) and \<^verbatim>\<open>update_job_node\<close> stores a node under its own type and id, at the place
  of the entry it replaces or behind the last one.
\<close>

definition job_node :: "job_nodes \<Rightarrow> node_type \<Rightarrow> int \<Rightarrow> node option" where
  "job_node jn t i = (case map_of jn t of None \<Rightarrow> None | Some nodes \<Rightarrow> map_of nodes i)"

definition update_job_node :: "node \<Rightarrow> job_nodes \<Rightarrow> job_nodes" where
  "update_job_node n jn =
     AList.update (type_n n)
       (AList.update (id_n n) n (case map_of jn (type_n n) of None \<Rightarrow> [] | Some nodes \<Rightarrow> nodes)) jn"

text \<open>The nodes in the order of the two nested loops over the store.\<close>

definition all_nodes :: "job_nodes \<Rightarrow> node list" where
  "all_nodes jn = concat (map (\<lambda>(t, nodes). map snd nodes) jn)"

text \<open>A change made in place to every stored node.\<close>

definition map_nodes :: "(node \<Rightarrow> node) \<Rightarrow> job_nodes \<Rightarrow> job_nodes" where
  "map_nodes f jn = map (\<lambda>(t, nodes). (t, map (\<lambda>(i, n). (i, f n)) nodes)) jn"

text \<open>Every node of the store is kept under its own type and id.\<close>

definition stored_under_own_key :: "job_nodes \<Rightarrow> bool" where
  "stored_under_own_key jn =
     list_all (\<lambda>(t, nodes). list_all (\<lambda>(i, n). type_n n = t \<and> id_n n = i) nodes) jn"

section \<open>Methods of Node\<close>

text \<open>
  Modelled from the spec: \<^verbatim>\<open>node.py\<close> is not under src/. \<^verbatim>\<open>update_info\<close> takes the
  attributes \<^verbatim>\<open>_process_event\<close> passes from the event's node: a name, a start time and a
  creation time that are given replace the node's, a host name and a host address that
  are given and not empty replace the node's, the relaunch count becomes the larger of
  the node's and the event's (it is monotonically non-decreasing), and
  \<^verbatim>\<open>restart_training\<close> and \<^verbatim>\<open>is_released\<close> are taken over.
\<close>

definition update_info :: "node \<Rightarrow> node \<Rightarrow> node" where
  "update_info n evn =
    (let n1 = (case name evn of None \<Rightarrow> n | Some v \<Rightarrow> n\<lparr>name := Some v\<rparr>);
         n2 = (case start_time evn of None \<Rightarrow> n1 | Some v \<Rightarrow> n1\<lparr>start_time := Some v\<rparr>);
         n3 = (case create_time evn of None \<Rightarrow> n2 | Some v \<Rightarrow> n2\<lparr>create_time := Some v\<rparr>);
         n4 = (case host_name evn of None \<Rightarrow> n3
               | Some v \<Rightarrow> if v = [] then n3 else n3\<lparr>host_name := Some v\<rparr>);
         n5 = (case host_ip evn of None \<Rightarrow> n4
               | Some v \<Rightarrow> if v = [] then n4 else n4\<lparr>host_ip := Some v\<rparr>);
         n6 = n5\<lparr>relaunch_count := max (relaunch_count n5) (relaunch_count evn)\<rparr>
     in n6\<lparr>restart_training := restart_training evn, is_released := is_released evn\<rparr>)"

text \<open>
  Modelled from the spec: \<^verbatim>\<open>update_status\<close>, \<^verbatim>\<open>set_exit_reason\<close>,
  \<^verbatim>\<open>update_service_address\<close> and \<^verbatim>\<open>update_reported_status\<close> of \<^verbatim>\<open>node.py\<close> store
  the value they are given; \<^verbatim>\<open>is_succeeded_and_exited\<close> reads the reported status.
\<close>

definition update_status :: "node \<Rightarrow> node_status \<Rightarrow> node" where
  "update_status n s = n\<lparr>status := s\<rparr>"

definition set_exit_reason :: "node \<Rightarrow> node_exit_reason \<Rightarrow> node" where
  "set_exit_reason n r = n\<lparr>exit_reason := r\<rparr>"

definition update_service_address :: "node \<Rightarrow> string \<Rightarrow> node" where
  "update_service_address n a = n\<lparr>service_addr := Some a\<rparr>"

definition update_reported_status :: "node \<Rightarrow> node_event_type \<Rightarrow> node" where
  "update_reported_status n t = n\<lparr>reported_status := Some t\<rparr>"

definition is_succeeded_and_exited :: "node \<Rightarrow> bool" where
  "is_succeeded_and_exited n = (reported_status n = Some NodeEventType_SUCCEEDED_EXITED)"

section \<open>The event pipeline\<close>

definition get_pod_unique_labels :: "manager \<Rightarrow> node \<Rightarrow> pod_labels" where
  "get_pod_unique_labels st n =
     \<lparr>label_job = job_name st, label_replica_type = type_n n,
      label_rank_index = rank_index n, label_replica_index = id_n n\<rparr>"

text \<open>
  The test \<^verbatim>\<open>_process_event\<close> applies to the answer of \<^verbatim>\<open>list_namespaced_pod\<close>: there
  is an answer, it has pods, and one of them is running with no deletion time stamp.
\<close>

definition running_pod_exists :: "pod list option \<Rightarrow> bool" where
  "running_pod_exists pods =
     (case pods of
        None \<Rightarrow> False
      | Some items \<Rightarrow>
          length items > 0
          \<and> list_ex (\<lambda>p. phase p = NodeStatus_RUNNING \<and> deletion_timestamp p = None) items)"

text \<open>\<^verbatim>\<open>close_job\<close>: a plan with empty worker and ps groups, then \<^verbatim>\<open>os._exit(0)\<close>.\<close>

definition close_job :: "manager \<Rightarrow> outcome" where
  "close_job st =
     ProcessExit (st\<lparr>scaled := scaled st
        @ [ScalePlan\<lparr>node_group_resources := [(NodeType_WORKER, 0), (NodeType_PS, 0)]\<rparr>]\<rparr>)"

text \<open>\<^verbatim>\<open>_process_node_events\<close>: the handler the transition runs on the callbacks.\<close>

definition process_node_events :: "manager \<Rightarrow> node_state_flow \<Rightarrow> node \<Rightarrow> manager" where
  "process_node_events st flow n =
    (if to_status flow = NodeStatus_RUNNING
       then st\<lparr>callback_calls := callback_calls st @ [(On_started, n)]\<rparr>
     else if to_status flow = NodeStatus_SUCCEEDED
       then st\<lparr>callback_calls := callback_calls st @ [(On_succeeded, n)]\<rparr>
     else if to_status flow = NodeStatus_FAILED
       then st\<lparr>callback_calls := callback_calls st @ [(On_failed, n)]\<rparr>
     else if from_status flow \<noteq> NodeStatus_FAILED \<and> from_status flow \<noteq> NodeStatus_SUCCEEDED
             \<and> to_status flow = NodeStatus_DELETED
       then st\<lparr>callback_calls := callback_calls st @ [(On_deleted, n)]\<rparr>
     else st)"

text \<open>
  \<^verbatim>\<open>_relaunch_node\<close>. A node of a type no manager serves leaves \<^verbatim>\<open>plan\<close> unbound, and
  the next line raises. The chief manager serves chief and master nodes. The node is in
  \<^verbatim>\<open>remove_nodes\<close> as it is when the plan reaches the scaler, no longer relaunchable.
\<close>

definition relaunch :: "env \<Rightarrow> manager \<Rightarrow> node \<Rightarrow> outcome" where
  "relaunch e st n =
    (if type_n n \<in> set [NodeType_WORKER, NodeType_PS, NodeType_EVALUATOR, NodeType_CHIEF, NodeType_MASTER]
     then
       (let served = (if type_n n = NodeType_MASTER then NodeType_CHIEF else type_n n);
            (plan, jn1) = relaunch_node e served n (remove_exited_node st) (job_nodes st);
            st1 = st\<lparr>job_nodes := jn1\<rparr>;
            st2 = (if length (launch_nodes plan) > 0
                   then st1\<lparr>reports := reports st1 @ [Report_node_relaunch n (hd (launch_nodes plan))]\<rparr>
                   else st1);
            plan1 = plan\<lparr>ps_addrs := ps_addrs plan @ get_ps_addrs e (job_nodes st2)\<rparr>;
            n1 = n\<lparr>relaunchable := False\<rparr>;
            plan2 = (if remove_exited_node st
                     then plan1\<lparr>remove_nodes := remove_nodes plan1 @ [n1]\<rparr> else plan1);
            st3 = st2\<lparr>job_nodes := update_job_node n1 (job_nodes st2)\<rparr>
        in Done (st3\<lparr>scaled := scaled st3 @ [plan2]\<rparr>))
     else Raise UnboundLocalError st)"

text \<open>
  \<^verbatim>\<open>_process_event\<close> from the place where the node has been found in the store.
  The node is written to the store where the source calls \<^verbatim>\<open>update_job_node\<close>; on every
  path that returns, the store then holds the node as the source leaves it.
\<close>

definition process_known_event :: "env \<Rightarrow> manager \<Rightarrow> node_event \<Rightarrow> node \<Rightarrow> outcome" where
  "process_known_event e st ev cur_node =
    (let cur1 = update_info cur_node (event_node ev);
         st1 = st\<lparr>job_nodes := update_job_node cur1 (job_nodes st)\<rparr>
     in if event_type ev = NodeEventType_exit then close_job st1
        else
          (let new_status = status (event_node ev);
               old_status = status cur1
           in case get_node_state_flow e old_status (event_type ev) new_status of
                None \<Rightarrow> Done st1
              | Some flow \<Rightarrow>
                  if from_status flow = NodeStatus_SUCCEEDED then Done st1
                  else
                    (let cur2 = set_exit_reason (update_status cur1 new_status)
                                  (exit_reason (event_node ev));
                         st2 = st1\<lparr>job_nodes := update_job_node cur2 (job_nodes st1)\<rparr>;
                         st3 = process_node_events st2 flow cur2;
                         (sr, cur3, st4) = should_relaunch_node e st3 cur2 flow;
                         st5 = (if sr \<and> wait_pending_relaunch st4
                                then st4\<lparr>pending_relaunch_count := pending_relaunch_count st4 + 1\<rparr>
                                else st4);
                         st6 = st5\<lparr>reports := reports st5
                                 @ [Report_status_change cur3 old_status (to_status flow)]\<rparr>
                     in if sr then relaunch e st6 cur3 else Done st6)))"

text \<open>
  \<^verbatim>\<open>_process_event\<close>: the deletion filter, then the lookup of the node. A node type
  that is no key of the store raises \<^verbatim>\<open>KeyError\<close>; an id that is unknown returns.
\<close>

definition process_event :: "env \<Rightarrow> manager \<Rightarrow> node_event \<Rightarrow> outcome" where
  "process_event e st ev =
    (let rechecked = ((event_type ev = NodeEventType_DELETED
                        \<or> status (event_node ev) = NodeStatus_DELETED)
                      \<and> \<not> is_positive_exit (exit_reason (event_node ev)));
         pod_labels_selector = get_pod_unique_labels st (event_node ev);
         st0 = (if rechecked then st\<lparr>pod_queries := pod_queries st @ [pod_labels_selector]\<rparr>
                else st)
     in if rechecked \<and> running_pod_exists (list_namespaced_pod e pod_labels_selector)
        then Done st0
        else
          (case map_of (job_nodes st0) (type_n (event_node ev)) of
             None \<Rightarrow> Raise KeyError st0
           | Some nodes \<Rightarrow>
               (case map_of nodes (id_n (event_node ev)) of
                  None \<Rightarrow> Done st0
                | Some cur_node \<Rightarrow> process_known_event e st0 ev cur_node)))"

text \<open>
  \<^verbatim>\<open>_process_event_safely\<close>, event after event: an exception of \<^verbatim>\<open>_process_event\<close>
  is logged and the pipeline goes on from the state reached; \<^verbatim>\<open>os._exit\<close> ends it.
\<close>

fun process_events :: "env \<Rightarrow> manager \<Rightarrow> node_event list \<Rightarrow> manager" where
  "process_events e st [] = st"
| "process_events e st (ev # evs) =
    (case process_event e st ev of
       Done st' \<Rightarrow> process_events e st' evs
     | Raise err st' \<Rightarrow> process_events e st' evs
     | ProcessExit st' \<Rightarrow> st')"

section \<open>Clearing nodes, stopping, reports from the agents\<close>

text \<open>
  \<^verbatim>\<open>clear_exited_nodes\<close> and \<^verbatim>\<open>clear_all_nodes\<close> change the stored nodes in place; the
  plan holds them as changed.
\<close>

definition clear_exited_nodes :: "env \<Rightarrow> manager \<Rightarrow> manager" where
  "clear_exited_nodes e st =
    (if \<not> remove_exited_node st then st
     else
       (let chosen = (\<lambda>n. \<not> is_released n \<and> exited e n);
            plan = ScalePlan\<lparr>remove_nodes :=
                     map (\<lambda>n. n\<lparr>is_released := True\<rparr>) (filter chosen (all_nodes (job_nodes st)))\<rparr>;
            st1 = st\<lparr>job_nodes :=
                     map_nodes (\<lambda>n. if chosen n then n\<lparr>is_released := True\<rparr> else n) (job_nodes st)\<rparr>
        in if length (remove_nodes plan) > 0 then st1\<lparr>scaled := scaled st1 @ [plan]\<rparr> else st1))"

definition clear_all_nodes :: "manager \<Rightarrow> manager" where
  "clear_all_nodes st =
    (let chosen = (\<lambda>n. \<not> is_released n);
         plan = ScalePlan\<lparr>remove_nodes :=
                  map (\<lambda>n. n\<lparr>is_released := True\<rparr>) (filter chosen (all_nodes (job_nodes st)))\<rparr>;
         st1 = st\<lparr>job_nodes :=
                  map_nodes (\<lambda>n. if chosen n then n\<lparr>is_released := True\<rparr> else n) (job_nodes st)\<rparr>
     in st1\<lparr>scaled := scaled st1 @ [plan]\<rparr>)"

text \<open>
  \<^verbatim>\<open>stop\<close>: the first loop changes every stored node in place; the second reads
  \<^verbatim>\<open>job_nodes[NodeType.WORKER]\<close>, which raises when the store has no workers, before
  the stopped flag is set.
\<close>

definition stop :: "env \<Rightarrow> manager \<Rightarrow> outcome" where
  "stop e st =
    (if \<not> stopped st then
       (let st1 = st\<lparr>enable_relaunch_node := False\<rparr>;
            st2 = st1\<lparr>job_nodes :=
                     map_nodes (\<lambda>n. n\<lparr>critical := False, is_released := True, relaunchable := False\<rparr>)
                       (job_nodes st1)\<rparr>
        in case map_of (job_nodes st2) NodeType_WORKER of
             None \<Rightarrow> Raise KeyError st2
           | Some workers \<Rightarrow>
               Done (st2\<lparr>job_nodes :=
                            AList.update NodeType_WORKER
                              (map (\<lambda>(i, n). (i, n\<lparr>eval_time := get_worker_eval_time e (id_n n)\<rparr>)) workers)
                              (job_nodes st2),
                         stopped := True\<rparr>))
     else Done st)"

definition update_node_service_addr :: "manager \<Rightarrow> node_type \<Rightarrow> int \<Rightarrow> string \<Rightarrow> manager" where
  "update_node_service_addr st t i a =
    (case job_node (job_nodes st) t i of
       None \<Rightarrow> st
     | Some n \<Rightarrow>
         st\<lparr>job_nodes :=
              update_job_node
                ((update_service_address n a)\<lparr>status := NodeStatus_RUNNING, is_released := False\<rparr>)
                (job_nodes st)\<rparr>)"

definition process_reported_node_event :: "manager \<Rightarrow> node_event \<Rightarrow> manager" where
  "process_reported_node_event st ev =
    (let st1 = (case job_node (job_nodes st) (type_n (event_node ev)) (id_n (event_node ev)) of
                  None \<Rightarrow> st
                | Some target_node \<Rightarrow>
                    st\<lparr>job_nodes :=
                         update_job_node (update_reported_status target_node (event_type ev))
                           (job_nodes st)\<rparr>)
     in if event_type ev = NodeEventType_SUCCEEDED_EXITED
        then st1\<lparr>job_stage := JobStage_JOB_STOPPING\<rparr>
        else st1)"

text \<open>
  A history of calls on the job manager after the start: events of the pipeline, events
  reported by the agents, the two clearing calls and service addresses. The calls are
  run in order; the process ends at an \<^verbatim>\<open>os._exit\<close>.
\<close>

datatype call =
  Call_process_event node_event
| Call_process_reported_node_event node_event
| Call_clear_exited_nodes
| Call_clear_all_nodes
| Call_update_node_service_addr node_type int string

fun run_call :: "env \<Rightarrow> manager \<Rightarrow> call \<Rightarrow> outcome" where
  "run_call e st (Call_process_event ev) = process_event e st ev"
| "run_call e st (Call_process_reported_node_event ev) = Done (process_reported_node_event st ev)"
| "run_call e st Call_clear_exited_nodes = Done (clear_exited_nodes e st)"
| "run_call e st Call_clear_all_nodes = Done (clear_all_nodes st)"
| "run_call e st (Call_update_node_service_addr t i a) = Done (update_node_service_addr st t i a)"

fun run_calls :: "env \<Rightarrow> manager \<Rightarrow> call list \<Rightarrow> manager" where
  "run_calls e st [] = st"
| "run_calls e st (c # cs) =
    (case run_call e st c of
       Done st' \<Rightarrow> run_calls e st' cs
     | Raise err st' \<Rightarrow> run_calls e st' cs
     | ProcessExit st' \<Rightarrow> st')"

section \<open>The heartbeat monitor\<close>

text \<open>
  \<^verbatim>\<open>_process_error\<close>: with a node, a node error is noted in the job context and the
  error goes on to \<^verbatim>\<open>process_error\<close>; without a node nothing happens.
\<close>

definition process_error_reports :: "node option \<Rightarrow> int \<Rightarrow> training_exception_level \<Rightarrow> report list" where
  "process_error_reports n restart_count level =
    (case n of
       None \<Rightarrow> []
     | Some v \<Rightarrow>
         (if level = TrainingExceptionLevel_NODE_ERROR then [Report_failed_node (id_n v)] else [])
         @ [Process_error v restart_count level])"

definition default_window_interval :: real where
  "default_window_interval = 600"

text \<open>The event \<^verbatim>\<open>_get_dead_node_event\<close> builds from a copy of the node.\<close>

definition dead_node_event :: "node \<Rightarrow> node_event" where
  "dead_node_event n =
     \<lparr>event_type = NodeEventType_DELETED,
      event_node = n\<lparr>status := NodeStatus_FAILED, exit_reason := NodeExitReason_NO_HEARTBEAT\<rparr>\<rparr>"

text \<open>
  The loop of \<^verbatim>\<open>_get_dead_node_event\<close> over the nodes: the events and the reports, in
  the order of the nodes. The inner test reads the two times only where the outer test
  has found them set.
\<close>

fun dead_node_events :: "timestamp \<Rightarrow> real \<Rightarrow> node list \<Rightarrow> node_event list \<times> report list" where
  "dead_node_events now window_interval [] = ([], [])"
| "dead_node_events now window_interval (n # ns) =
    (let (dead_events, rs) = dead_node_events now window_interval ns
     in if heartbeat_time n > 0
           \<and> now - heartbeat_time n > window_interval
           \<and> start_time n \<noteq> None
           \<and> create_time n \<noteq> None
           \<and> status n = NodeStatus_RUNNING
           \<and> \<not> is_succeeded_and_exited n
        then
          (if (case start_time n of None \<Rightarrow> False | Some t \<Rightarrow> heartbeat_time n \<le> t)
              \<or> (case create_time n of None \<Rightarrow> False | Some t \<Rightarrow> heartbeat_time n \<le> t)
           then (dead_events, rs)
           else (dead_node_event n # dead_events,
                 process_error_reports (Some n) (relaunch_count n) TrainingExceptionLevel_NODE_ERROR
                 @ [Report_no_heartbeat n window_interval] @ rs))
        else (dead_events, rs))"

definition get_dead_node_event :: "manager \<Rightarrow> timestamp \<Rightarrow> real \<Rightarrow> node_event list \<times> manager" where
  "get_dead_node_event st now window_interval =
    (let (dead_events, rs) = dead_node_events now window_interval (all_nodes (job_nodes st))
     in (dead_events, st\<lparr>reports := reports st @ rs\<rparr>))"

section \<open>Early stop\<close>

text \<open>
  The detectors of the parameter-server manager and of the worker manager, which read
  the node store: they are not part of \<^verbatim>\<open>dist_job_manager.py\<close>.
\<close>

record node_managers =
  is_all_initial_workers_node_check_failed :: "job_nodes \<Rightarrow> int \<Rightarrow> bool"
  get_pending_timeout_oom_recovered_node :: "job_nodes \<Rightarrow> node list"
  ps_find_pending_node_caused_training_hang :: "job_nodes \<Rightarrow> int \<Rightarrow> distribution_strategy \<Rightarrow> node option"
  worker_find_pending_node_caused_training_hang :: "job_nodes \<Rightarrow> int \<Rightarrow> distribution_strategy \<Rightarrow> node option"
  is_training_hang_by_insufficient_worker :: "job_nodes \<Rightarrow> bool"

definition msg_node_check_failed :: string where
  "msg_node_check_failed =
     ''Stop the training early because all worker nodes has failed the node check in rendezvous.''"

definition msg_oom_pending_timeout :: string where
  "msg_oom_pending_timeout =
     ''Stop the training early because the nodes recovered from OOM are pending too long and have timed out.''"

definition msg_pending_hang :: string where
  "msg_pending_hang =
     ''Stop the training early because 1) there is node pending 2) alive nodes number consistently less than the min training nodes required 3) pending time last exceed limit.''"

definition msg_insufficient_worker :: string where
  "msg_insufficient_worker =
     ''Stop the training early because there isn't enough node to keep training.''"

definition should_early_stop :: "node_managers \<Rightarrow> manager \<Rightarrow> (bool \<times> job_exit_reason \<times> string) \<times> manager" where
  "should_early_stop m st =
    (if is_all_reduce_type_job st
        \<and> is_all_initial_workers_node_check_failed m (job_nodes st) (worker_num st)
     then ((True, JobExitReason_NODE_CHECK_FAILED, msg_node_check_failed),
           st\<lparr>reports := reports st
                @ process_error_reports None 0 TrainingExceptionLevel_RDZV_ERROR
                @ [Report_early_stop ''All node check failed'']\<rparr>)
     else
       (let timeout_ps_nodes = get_pending_timeout_oom_recovered_node m (job_nodes st)
        in if length timeout_ps_nodes > 0
           then ((True, JobExitReason_PENDING_TIMEOUT, msg_oom_pending_timeout),
                 st\<lparr>reports := reports st
                      @ process_error_reports (Some (hd timeout_ps_nodes)) 0 TrainingExceptionLevel_ERROR
                      @ [Report_early_stop ''PS OOM'']\<rparr>)
           else
             (let first_pending_node =
                    (case ps_find_pending_node_caused_training_hang m (job_nodes st) (ps_num st)
                            (distribution_strategy st) of
                       Some n \<Rightarrow> Some n
                     | None \<Rightarrow>
                         worker_find_pending_node_caused_training_hang m (job_nodes st) (worker_num st)
                           (distribution_strategy st))
              in if first_pending_node \<noteq> None
                 then ((True, JobExitReason_PENDING_TIMEOUT, msg_pending_hang),
                       st\<lparr>reports := reports st
                            @ process_error_reports None 0 TrainingExceptionLevel_ERROR
                            @ [Report_early_stop ''Pending nodes'']\<rparr>)
                 else if is_all_reduce_type_job st
                         \<and> is_training_hang_by_insufficient_worker m (job_nodes st)
                 then ((True, JobExitReason_UNCOMPLETED_TIMEOUT, msg_insufficient_worker),
                       st\<lparr>reports := reports st
                            @ process_error_reports None 0 TrainingExceptionLevel_ERROR
                            @ [Report_early_stop ''Not enough nodes'']\<rparr>)
                 else ((False, JobExitReason_empty, []), st))))"

section \<open>Inputs for the worked cases\<close>

text \<open>
  Modelled from the spec: \<^verbatim>\<open>status_flow.py\<close> is not under src/. The table below has the
  rows the specification names: initial to pending and pending to running without
  relaunch, running to succeeded without relaunch, running to failed and running to
  deleted with relaunch, a deleted event that reports a failed node with relaunch, and
  no row out of succeeded.
\<close>

definition example_state_flow :: "node_status \<Rightarrow> node_event_type \<Rightarrow> node_status \<Rightarrow> node_state_flow option" where
  "example_state_flow old_status ev new_status =
    (if old_status = NodeStatus_SUCCEEDED then None
     else if ev = NodeEventType_DELETED \<and> old_status = NodeStatus_RUNNING
             \<and> new_status = NodeStatus_FAILED
       then Some \<lparr>from_status = old_status, to_status = NodeStatus_FAILED, should_relaunch = True\<rparr>
     else if ev = NodeEventType_DELETED \<and> old_status = NodeStatus_RUNNING
             \<and> new_status = NodeStatus_DELETED
       then Some \<lparr>from_status = old_status, to_status = NodeStatus_DELETED, should_relaunch = True\<rparr>
     else if ev \<in> set [NodeEventType_ADDED, NodeEventType_MODIFIED] then
       (if old_status = NodeStatus_INITIAL \<and> new_status = NodeStatus_PENDING
          then Some \<lparr>from_status = old_status, to_status = new_status, should_relaunch = False\<rparr>
        else if old_status = NodeStatus_PENDING \<and> new_status = NodeStatus_RUNNING
          then Some \<lparr>from_status = old_status, to_status = new_status, should_relaunch = False\<rparr>
        else if old_status = NodeStatus_RUNNING \<and> new_status = NodeStatus_SUCCEEDED
          then Some \<lparr>from_status = old_status, to_status = new_status, should_relaunch = False\<rparr>
        else if old_status = NodeStatus_RUNNING \<and> new_status = NodeStatus_FAILED
          then Some \<lparr>from_status = old_status, to_status = new_status, should_relaunch = True\<rparr>
        else None)
     else None)"

text \<open>A running worker with a budget of three relaunches and 4096 MiB of memory.\<close>

definition example_node :: node where
  "example_node =
     \<lparr>type_n = NodeType_WORKER, id_n = 4, name = Some ''test-edljob-worker-4'', rank_index = 4,
      status = NodeStatus_RUNNING, exit_reason = NodeExitReason_none,
      relaunch_count = 0, max_relaunch_count = 3, relaunchable = True, critical = False,
      is_released = False, is_recovered_oom = False,
      config_resource = \<lparr>memory = 4096\<rparr>,
      create_time = Some 1000, start_time = Some 1010, heartbeat_time = 1100,
      host_name = None, host_ip = None, restart_training = False,
      reported_status = None, service_addr = None, eval_time = 0\<rparr>"

text \<open>
  Modelled from the spec: the node managers are not under src/. A relaunch allocates a
  fresh id, the largest id of the type plus one, builds the new node from the old one
  (resource and maximal relaunch count kept) in the initial status, puts it into the
  store and launches it.
\<close>

definition next_node_id :: "job_nodes \<Rightarrow> node_type \<Rightarrow> int" where
  "next_node_id jn t =
     (case map_of jn t of None \<Rightarrow> 0 | Some nodes \<Rightarrow> fold max (map fst nodes) (- 1) + 1)"

definition example_relaunch_node :: "node_type \<Rightarrow> node \<Rightarrow> bool \<Rightarrow> job_nodes \<Rightarrow> scale_plan \<times> job_nodes" where
  "example_relaunch_node t n remove_exited jn =
     (let new_node = n\<lparr>id_n := next_node_id jn (type_n n), status := NodeStatus_INITIAL\<rparr>
      in (ScalePlan\<lparr>launch_nodes := [new_node]\<rparr>, update_job_node new_node jn))"

text \<open>
  Collaborators for the worked cases: the optimizer doubles the memory and the cluster
  knows no pod.
\<close>

definition example_env :: env where
  "example_env =
     \<lparr>MAX_MEMORY = 65536, relaunch_always = False,
      get_node_state_flow = example_state_flow,
      list_namespaced_pod = (\<lambda>labels. Some []),
      adjust_oom_resource = (\<lambda>n. 2 * memory (config_resource n)),
      relaunch_node = example_relaunch_node,
      get_ps_addrs = (\<lambda>jn. []),
      get_worker_eval_time = (\<lambda>i. 0),
      exited = (\<lambda>n. status n \<in> set [NodeStatus_SUCCEEDED, NodeStatus_FAILED, NodeStatus_DELETED])\<rparr>"

definition example_manager :: manager where
  "example_manager =
     \<lparr>job_name = ''test'', distribution_strategy = DistributionStrategy_PS,
      worker_num = 5, ps_num = 0,
      remove_exited_node = True, wait_pending_relaunch = False, enable_relaunch_node = True,
      pending_relaunch_count = 0, stopped = False,
      job_nodes = [(NodeType_WORKER, [(4, example_node)])],
      job_stage = JobStage_JOB_RUNNING,
      scaled = [], reports = [], oom_adjusted = [], pod_queries = [], callback_calls = []\<rparr>"

definition example_flow :: node_state_flow where
  "example_flow =
     \<lparr>from_status = NodeStatus_RUNNING, to_status = NodeStatus_FAILED, should_relaunch = True\<rparr>"

definition example_node_managers :: node_managers where
  "example_node_managers =
     \<lparr>is_all_initial_workers_node_check_failed = (\<lambda>jn n. False),
      get_pending_timeout_oom_recovered_node = (\<lambda>jn. []),
      ps_find_pending_node_caused_training_hang = (\<lambda>jn n s. None),
      worker_find_pending_node_caused_training_hang = (\<lambda>jn n s. None),
      is_training_hang_by_insufficient_worker = (\<lambda>jn. False)\<rparr>"

section \<open>Properties of the relaunch policy\<close>

lemmas example_defs = example_env_def example_manager_def example_node_def example_flow_def

lemma should_relaunch_node_count:
  "relaunch_count (fst (snd (should_relaunch_node e st n flow)))
     = (if fst (should_relaunch_node e st n flow) then relaunch_count n + 1 else relaunch_count n)"
  by (simp add: should_relaunch_node_def recheck_should_relaunch_def Let_def)

lemma should_relaunch_node_max:
  "max_relaunch_count (fst (snd (should_relaunch_node e st n flow))) = max_relaunch_count n"
  by (simp add: should_relaunch_node_def recheck_should_relaunch_def Let_def)

lemma should_relaunch_node_budget:
  "exit_reason n \<noteq> NodeExitReason_KILLED \<Longrightarrow> fst (should_relaunch_node e st n flow)
     \<Longrightarrow> relaunch_count n < max_relaunch_count n"
  by (simp add: should_relaunch_node_def recheck_should_relaunch_def Let_def split: if_splits)

text \<open>
  C1. For a transition whose \<^verbatim>\<open>should_relaunch\<close> is true, with relaunch enabled, the node
  relaunchable, the job stage not stopping, the exit reason \<^verbatim>\<open>oom\<close>, the job not
  all-reduce, the configured memory strictly below \<^verbatim>\<open>MAX_MEMORY\<close> and the relaunch count
  strictly below its maximum, \<^verbatim>\<open>_should_relaunch\<close> returns true, sets
  \<^verbatim>\<open>is_recovered_oom\<close>, hands the node, already marked, to the optimizer (once, and the
  node gets the memory the optimizer gives), and raises the relaunch count by exactly one.
\<close>

theorem should_relaunch_oom_recovers:
  assumes "should_relaunch flow" and "enable_relaunch_node st" and "relaunchable n"
    and "job_stage st \<noteq> JobStage_JOB_STOPPING"
    and "exit_reason n = NodeExitReason_OOM"
    and "\<not> is_all_reduce_type_job st"
    and "memory (config_resource n) < MAX_MEMORY e"
    and "relaunch_count n < max_relaunch_count n"
  shows "fst (should_relaunch_node e st n flow) = True
    \<and> is_recovered_oom (fst (snd (should_relaunch_node e st n flow))) = True
    \<and> relaunch_count (fst (snd (should_relaunch_node e st n flow))) = relaunch_count n + 1
    \<and> memory (config_resource (fst (snd (should_relaunch_node e st n flow))))
        = adjust_oom_resource e (n\<lparr>is_recovered_oom := True\<rparr>)
    \<and> oom_adjusted (snd (snd (should_relaunch_node e st n flow)))
        = oom_adjusted st @ [n\<lparr>is_recovered_oom := True\<rparr>]"
  using assms
  by (simp add: should_relaunch_node_def recheck_should_relaunch_def Let_def)

theorem should_relaunch_oom_recovers_witness:
  "should_relaunch example_flow \<and> enable_relaunch_node example_manager
   \<and> relaunchable (example_node\<lparr>exit_reason := NodeExitReason_OOM\<rparr>)
   \<and> fst (should_relaunch_node example_env example_manager
        (example_node\<lparr>exit_reason := NodeExitReason_OOM\<rparr>) example_flow) = True
   \<and> relaunch_count (fst (snd (should_relaunch_node example_env example_manager
        (example_node\<lparr>exit_reason := NodeExitReason_OOM\<rparr>) example_flow))) = 1
   \<and> memory (config_resource (fst (snd (should_relaunch_node example_env example_manager
        (example_node\<lparr>exit_reason := NodeExitReason_OOM\<rparr>) example_flow)))) = 8192"
  using should_relaunch_oom_recovers [of example_flow example_manager
      "example_node\<lparr>exit_reason := NodeExitReason_OOM\<rparr>" example_env]
  by (simp add: example_defs is_all_reduce_type_job_def)

section \<open>Properties of the heartbeat monitor\<close>

lemma dead_node_events_map_filter:
  "fst (dead_node_events now w ns)
     = map dead_node_event
         (filter (\<lambda>n. status n = NodeStatus_RUNNING \<and> \<not> is_succeeded_and_exited n
                    \<and> 0 < heartbeat_time n \<and> w < now - heartbeat_time n
                    \<and> (\<exists>c s. create_time n = Some c \<and> start_time n = Some s
                          \<and> c < heartbeat_time n \<and> s < heartbeat_time n)) ns)"
proof (induction ns)
  case Nil
  show ?case by simp
next
  case (Cons n ns)
  obtain evs rs where r: "dead_node_events now w ns = (evs, rs)"
    by (cases "dead_node_events now w ns")
  with Cons show ?case
    by (auto simp: Let_def split: option.splits)
qed

text \<open>
  C3. With the window of 600 seconds, \<^verbatim>\<open>_get_dead_node_event\<close> returns an event for a
  node of the store exactly when the node is running, has not succeeded and exited, has
  a positive heartbeat time that lies more than 600 seconds before now, and has a
  creation time and a start time that both lie strictly before the heartbeat time. The
  event is a deleted event that carries the node as failed with the exit reason
  \<^verbatim>\<open>no_heartbeat\<close>. So a node whose heartbeat time is not after its creation time or
  not after its start time is never reported.
\<close>

theorem get_dead_node_event_iff:
  "ev \<in> set (fst (get_dead_node_event st now default_window_interval))
   \<longleftrightarrow> (\<exists>n. n \<in> set (all_nodes (job_nodes st))
          \<and> ev = \<lparr>event_type = NodeEventType_DELETED,
                   event_node = n\<lparr>status := NodeStatus_FAILED,
                                   exit_reason := NodeExitReason_NO_HEARTBEAT\<rparr>\<rparr>
          \<and> status n = NodeStatus_RUNNING \<and> \<not> is_succeeded_and_exited n
          \<and> 0 < heartbeat_time n \<and> 600 < now - heartbeat_time n
          \<and> (\<exists>c s. create_time n = Some c \<and> start_time n = Some s
                \<and> c < heartbeat_time n \<and> s < heartbeat_time n))"
proof -
  have "fst (get_dead_node_event st now default_window_interval)
      = fst (dead_node_events now 600 (all_nodes (job_nodes st)))"
    by (simp add: get_dead_node_event_def default_window_interval_def split: prod.splits)
  then show ?thesis
    unfolding dead_node_events_map_filter dead_node_event_def by auto
qed

theorem get_dead_node_event_iff_witness:
  "dead_node_event example_node
     \<in> set (fst (get_dead_node_event example_manager 1710 default_window_interval))
   \<and> dead_node_event (example_node\<lparr>start_time := Some 1100\<rparr>)
     \<notin> set (fst (get_dead_node_event
          (example_manager\<lparr>job_nodes := [(NodeType_WORKER, [(4, example_node\<lparr>start_time := Some 1100\<rparr>)])]\<rparr>)
          1710 default_window_interval))"
proof -
  have a: "dead_node_event example_node
     \<in> set (fst (get_dead_node_event example_manager 1710 default_window_interval))"
    unfolding get_dead_node_event_iff [of "dead_node_event example_node" example_manager 1710]
    by (rule exI [of _ example_node])
      (simp add: example_manager_def example_node_def all_nodes_def dead_node_event_def
        is_succeeded_and_exited_def)
  have b: "dead_node_event (example_node\<lparr>start_time := Some 1100\<rparr>)
     \<notin> set (fst (get_dead_node_event
          (example_manager\<lparr>job_nodes := [(NodeType_WORKER, [(4, example_node\<lparr>start_time := Some 1100\<rparr>)])]\<rparr>)
          1710 default_window_interval))"
    unfolding get_dead_node_event_iff [of "dead_node_event (example_node\<lparr>start_time := Some 1100\<rparr>)"
        "example_manager\<lparr>job_nodes := [(NodeType_WORKER, [(4, example_node\<lparr>start_time := Some 1100\<rparr>)])]\<rparr>" 1710]
    by (simp add: example_manager_def example_node_def all_nodes_def dead_node_event_def
        is_succeeded_and_exited_def)
  from a b show ?thesis by simp
qed

section \<open>Properties of the event pipeline\<close>

lemma should_relaunch_node_frame:
  "scaled (snd (snd (should_relaunch_node e st n flow))) = scaled st
   \<and> pod_queries (snd (snd (should_relaunch_node e st n flow))) = pod_queries st
   \<and> job_nodes (snd (snd (should_relaunch_node e st n flow))) = job_nodes st
   \<and> callback_calls (snd (snd (should_relaunch_node e st n flow))) = callback_calls st
   \<and> enable_relaunch_node (snd (snd (should_relaunch_node e st n flow))) = enable_relaunch_node st
   \<and> remove_exited_node (snd (snd (should_relaunch_node e st n flow))) = remove_exited_node st
   \<and> wait_pending_relaunch (snd (snd (should_relaunch_node e st n flow))) = wait_pending_relaunch st
   \<and> job_stage (snd (snd (should_relaunch_node e st n flow))) = job_stage st"
  by (simp add: should_relaunch_node_def recheck_should_relaunch_def Let_def)

lemma should_relaunch_node_disabled:
  "\<not> enable_relaunch_node st \<Longrightarrow> should_relaunch_node e st n flow = (False, n, st)"
  by (simp add: should_relaunch_node_def)

lemma should_relaunch_node_stopping:
  "job_stage st = JobStage_JOB_STOPPING \<Longrightarrow> fst (should_relaunch_node e st n flow) = False"
  by (simp add: should_relaunch_node_def recheck_should_relaunch_def)

lemma process_node_events_frame:
  "scaled (process_node_events st flow n) = scaled st
   \<and> pod_queries (process_node_events st flow n) = pod_queries st
   \<and> job_nodes (process_node_events st flow n) = job_nodes st
   \<and> reports (process_node_events st flow n) = reports st
   \<and> enable_relaunch_node (process_node_events st flow n) = enable_relaunch_node st
   \<and> remove_exited_node (process_node_events st flow n) = remove_exited_node st
   \<and> wait_pending_relaunch (process_node_events st flow n) = wait_pending_relaunch st
   \<and> job_stage (process_node_events st flow n) = job_stage st"
  by (simp add: process_node_events_def)

lemma relaunch_frame:
  "pod_queries (state_of (relaunch e st n)) = pod_queries st
   \<and> enable_relaunch_node (state_of (relaunch e st n)) = enable_relaunch_node st"
  by (simp add: relaunch_def Let_def split: prod.splits)

lemma close_job_frame:
  "pod_queries (state_of (close_job st)) = pod_queries st"
  by (simp add: close_job_def)

lemma process_known_event_pod_queries:
  "pod_queries (state_of (process_known_event e st ev cur)) = pod_queries st"
  by (simp add: process_known_event_def Let_def case_prod_beta should_relaunch_node_frame
      process_node_events_frame relaunch_frame close_job_frame split: option.splits)

lemma should_relaunch_node_cluster:
  "should_relaunch_node (e\<lparr>list_namespaced_pod := f\<rparr>) st n flow = should_relaunch_node e st n flow"
  by (simp add: should_relaunch_node_def recheck_should_relaunch_def Let_def)

lemma relaunch_cluster:
  "relaunch (e\<lparr>list_namespaced_pod := f\<rparr>) st n = relaunch e st n"
  by (simp add: relaunch_def)

lemma process_known_event_cluster:
  "process_known_event (e\<lparr>list_namespaced_pod := f\<rparr>) st ev cur = process_known_event e st ev cur"
  by (simp add: process_known_event_def Let_def case_prod_beta should_relaunch_node_cluster
      relaunch_cluster split: option.splits)

lemma process_known_event_disabled:
  assumes "\<not> enable_relaunch_node st" and "event_type ev \<noteq> NodeEventType_exit"
  shows "scaled (state_of (process_known_event e st ev cur)) = scaled st
    \<and> \<not> enable_relaunch_node (state_of (process_known_event e st ev cur))"
  using assms
  by (simp add: process_known_event_def Let_def should_relaunch_node_disabled
      process_node_events_frame split: option.splits)

text \<open>
  C4. For a deleted event, or an event whose node status is deleted, with an exit reason
  that is no positive exit, \<^verbatim>\<open>_process_event\<close> asks the cluster for the pods with the
  node's unique labels (job name, replica type, rank index, replica index), and when one
  of the pods returned is running and has no deletion time stamp it returns with nothing
  changed but the record of that query. For an event whose exit reason is
  \<^verbatim>\<open>diag_fail\<close> or \<^verbatim>\<open>no_heartbeat\<close> no query is sent and the answers of the cluster
  have no effect on the outcome.
\<close>

theorem process_event_deletion_filter:
  "((event_type ev = NodeEventType_DELETED \<or> status (event_node ev) = NodeStatus_DELETED)
      \<and> \<not> is_positive_exit (exit_reason (event_node ev))
      \<and> list_namespaced_pod e
            \<lparr>label_job = job_name st, label_replica_type = type_n (event_node ev),
             label_rank_index = rank_index (event_node ev),
             label_replica_index = id_n (event_node ev)\<rparr> = Some pods
      \<and> p \<in> set pods \<and> phase p = NodeStatus_RUNNING \<and> deletion_timestamp p = None
    \<longrightarrow> process_event e st ev
          = Done (st\<lparr>pod_queries := pod_queries st
               @ [\<lparr>label_job = job_name st, label_replica_type = type_n (event_node ev),
                   label_rank_index = rank_index (event_node ev),
                   label_replica_index = id_n (event_node ev)\<rparr>]\<rparr>))
   \<and> (exit_reason (event_node ev) = NodeExitReason_DIAG_FAIL
        \<or> exit_reason (event_node ev) = NodeExitReason_NO_HEARTBEAT
    \<longrightarrow> is_positive_exit (exit_reason (event_node ev))
        \<and> pod_queries (state_of (process_event e st ev)) = pod_queries st
        \<and> process_event (e\<lparr>list_namespaced_pod := answers\<rparr>) st ev = process_event e st ev)"
proof (intro conjI impI)
  assume a: "(event_type ev = NodeEventType_DELETED \<or> status (event_node ev) = NodeStatus_DELETED)
      \<and> \<not> is_positive_exit (exit_reason (event_node ev))
      \<and> list_namespaced_pod e
            \<lparr>label_job = job_name st, label_replica_type = type_n (event_node ev),
             label_rank_index = rank_index (event_node ev),
             label_replica_index = id_n (event_node ev)\<rparr> = Some pods
      \<and> p \<in> set pods \<and> phase p = NodeStatus_RUNNING \<and> deletion_timestamp p = None"
  then have "pods \<noteq> []" and "\<exists>q\<in>set pods. phase q = NodeStatus_RUNNING \<and> deletion_timestamp q = None"
    by auto
  then have "running_pod_exists (Some pods)"
    by (simp add: running_pod_exists_def list_ex_iff)
  with a show "process_event e st ev
          = Done (st\<lparr>pod_queries := pod_queries st
               @ [\<lparr>label_job = job_name st, label_replica_type = type_n (event_node ev),
                   label_rank_index = rank_index (event_node ev),
                   label_replica_index = id_n (event_node ev)\<rparr>]\<rparr>)"
    by (simp add: process_event_def get_pod_unique_labels_def Let_def)
next
  assume b: "exit_reason (event_node ev) = NodeExitReason_DIAG_FAIL
        \<or> exit_reason (event_node ev) = NodeExitReason_NO_HEARTBEAT"
  then show pos: "is_positive_exit (exit_reason (event_node ev))"
    by (auto simp: is_positive_exit_def)
  from pos show "pod_queries (state_of (process_event e st ev)) = pod_queries st"
    by (simp add: process_event_def Let_def process_known_event_pod_queries split: option.splits)
  from pos show "process_event (e\<lparr>list_namespaced_pod := answers\<rparr>) st ev = process_event e st ev"
    by (simp add: process_event_def Let_def process_known_event_cluster split: option.splits)
qed

theorem process_event_deletion_filter_witness:
  "process_event
      (example_env\<lparr>list_namespaced_pod :=
         (\<lambda>labels. Some [\<lparr>phase = NodeStatus_RUNNING, deletion_timestamp = None\<rparr>])\<rparr>)
      example_manager
      \<lparr>event_type = NodeEventType_DELETED, event_node = example_node\<lparr>status := NodeStatus_DELETED\<rparr>\<rparr>
    = Done (example_manager\<lparr>pod_queries :=
        [\<lparr>label_job = ''test'', label_replica_type = NodeType_WORKER,
          label_rank_index = 4, label_replica_index = 4\<rparr>]\<rparr>)
   \<and> pod_queries (state_of (process_event example_env example_manager
        \<lparr>event_type = NodeEventType_DELETED,
         event_node = example_node\<lparr>status := NodeStatus_FAILED,
                                    exit_reason := NodeExitReason_NO_HEARTBEAT\<rparr>\<rparr>)) = []"
  using process_event_deletion_filter [of
      "\<lparr>event_type = NodeEventType_DELETED, event_node = example_node\<lparr>status := NodeStatus_DELETED\<rparr>\<rparr>"
      "example_env\<lparr>list_namespaced_pod :=
         (\<lambda>labels. Some [\<lparr>phase = NodeStatus_RUNNING, deletion_timestamp = None\<rparr>])\<rparr>"
      example_manager "[\<lparr>phase = NodeStatus_RUNNING, deletion_timestamp = None\<rparr>]"
      "\<lparr>phase = NodeStatus_RUNNING, deletion_timestamp = None\<rparr>"]
    process_event_deletion_filter [of
      "\<lparr>event_type = NodeEventType_DELETED,
         event_node = example_node\<lparr>status := NodeStatus_FAILED,
                                    exit_reason := NodeExitReason_NO_HEARTBEAT\<rparr>\<rparr>"
      example_env example_manager]
  by (simp add: example_manager_def example_node_def is_positive_exit_def)

lemma process_event_disabled:
  assumes "\<not> enable_relaunch_node st" and "event_type ev \<noteq> NodeEventType_exit"
  shows "scaled (state_of (process_event e st ev)) = scaled st
    \<and> \<not> enable_relaunch_node (state_of (process_event e st ev))"
  using assms
  by (simp add: process_event_def Let_def process_known_event_disabled split: option.splits)

section \<open>Events without a state flow\<close>

lemma job_node_update_job_node:
  "job_node (update_job_node n jn) t i
     = (if t = type_n n \<and> i = id_n n then Some n else job_node jn t i)"
  by (simp add: job_node_def update_job_node_def update_conv' split: option.splits)

lemma update_info_frame:
  "update_info cur evn
     = cur\<lparr>name := name (update_info cur evn), start_time := start_time (update_info cur evn),
           create_time := create_time (update_info cur evn),
           host_name := host_name (update_info cur evn), host_ip := host_ip (update_info cur evn),
           relaunch_count := relaunch_count (update_info cur evn),
           restart_training := restart_training (update_info cur evn),
           is_released := is_released (update_info cur evn)\<rparr>"
  by (simp add: update_info_def Let_def split: option.splits)

lemma update_info_keeps:
  "status (update_info cur evn) = status cur \<and> exit_reason (update_info cur evn) = exit_reason cur
   \<and> type_n (update_info cur evn) = type_n cur \<and> id_n (update_info cur evn) = id_n cur"
  by (simp add: update_info_def Let_def split: option.splits)

text \<open>
  A succeeded worker and a modified event that reports it running under a new name and
  host address: the table has no row, and the stored node has the new name and address.
\<close>

theorem no_flow_counterexample:
  "get_node_state_flow example_env NodeStatus_SUCCEEDED NodeEventType_MODIFIED NodeStatus_RUNNING = None
   \<and> job_node (job_nodes (example_manager
          \<lparr>job_nodes := [(NodeType_WORKER, [(4, example_node\<lparr>status := NodeStatus_SUCCEEDED\<rparr>)])]\<rparr>))
        NodeType_WORKER 4
      = Some (example_node\<lparr>status := NodeStatus_SUCCEEDED\<rparr>)
   \<and> job_node (job_nodes (state_of (process_event example_env
          (example_manager
            \<lparr>job_nodes := [(NodeType_WORKER, [(4, example_node\<lparr>status := NodeStatus_SUCCEEDED\<rparr>)])]\<rparr>)
          \<lparr>event_type = NodeEventType_MODIFIED,
           event_node = example_node\<lparr>name := Some ''test-edljob-worker-4-new'',
                                      host_ip := Some ''10.0.0.7''\<rparr>\<rparr>)))
        NodeType_WORKER 4
      = Some (example_node\<lparr>status := NodeStatus_SUCCEEDED, name := Some ''test-edljob-worker-4-new'',
                           host_ip := Some ''10.0.0.7''\<rparr>)"
  by (simp add: example_defs example_state_flow_def process_event_def process_known_event_def
      is_positive_exit_def update_info_def Let_def update_job_node_def job_node_def)

text \<open>
  C5 (amended). For an event other than \<^verbatim>\<open>"exit"\<close> on a node of the store, kept under
  its own type and id, for which the state flow of (old status, event type, new status)
  is none or is a row from succeeded (every attempted transition out of succeeded),
  \<^verbatim>\<open>_process_event\<close> returns, the node keeps its status and its exit reason, no
  callback is run, nothing is reported, the optimizer is not called and no plan reaches
  the scaler. The stored node is the one \<^verbatim>\<open>update_info\<close> made from the event, which
  differs from the old one in name, start time, creation time, host name, host address,
  relaunch count, \<^verbatim>\<open>restart_training\<close> and \<^verbatim>\<open>is_released\<close> at most; it is the old one
  when the deletion filter drops the event.
\<close>

theorem process_event_no_flow:
  assumes "job_node (job_nodes st) (type_n (event_node ev)) (id_n (event_node ev)) = Some cur"
    and "type_n cur = type_n (event_node ev)" and "id_n cur = id_n (event_node ev)"
    and "event_type ev \<noteq> NodeEventType_exit"
    and "get_node_state_flow e (status cur) (event_type ev) (status (event_node ev)) = None
      \<or> (\<exists>flow. get_node_state_flow e (status cur) (event_type ev) (status (event_node ev))
              = Some flow \<and> from_status flow = NodeStatus_SUCCEEDED)"
  shows "\<exists>st'. process_event e st ev = Done st'
    \<and> job_node (job_nodes st') (type_n (event_node ev)) (id_n (event_node ev))
        = Some (if (event_type ev = NodeEventType_DELETED
                     \<or> status (event_node ev) = NodeStatus_DELETED)
                   \<and> \<not> is_positive_exit (exit_reason (event_node ev))
                   \<and> running_pod_exists
                        (list_namespaced_pod e (get_pod_unique_labels st (event_node ev)))
                then cur else update_info cur (event_node ev))
    \<and> status (update_info cur (event_node ev)) = status cur
    \<and> exit_reason (update_info cur (event_node ev)) = exit_reason cur
    \<and> update_info cur (event_node ev)
        = cur\<lparr>name := name (update_info cur (event_node ev)),
              start_time := start_time (update_info cur (event_node ev)),
              create_time := create_time (update_info cur (event_node ev)),
              host_name := host_name (update_info cur (event_node ev)),
              host_ip := host_ip (update_info cur (event_node ev)),
              relaunch_count := relaunch_count (update_info cur (event_node ev)),
              restart_training := restart_training (update_info cur (event_node ev)),
              is_released := is_released (update_info cur (event_node ev))\<rparr>
    \<and> scaled st' = scaled st \<and> reports st' = reports st
    \<and> callback_calls st' = callback_calls st \<and> oom_adjusted st' = oom_adjusted st
    \<and> job_stage st' = job_stage st"
proof -
  let ?evn = "event_node ev"
  obtain nodes where n: "map_of (job_nodes st) (type_n ?evn) = Some nodes"
      and c: "map_of nodes (id_n ?evn) = Some cur"
    using assms(1) by (auto simp: job_node_def split: option.splits)
  have k: "status (update_info cur ?evn) = status cur"
      "exit_reason (update_info cur ?evn) = exit_reason cur"
      "type_n (update_info cur ?evn) = type_n ?evn" "id_n (update_info cur ?evn) = id_n ?evn"
    using update_info_keeps [of cur ?evn] assms(2,3) by simp_all
  have known: "process_known_event e s ev cur
      = Done (s\<lparr>job_nodes := update_job_node (update_info cur ?evn) (job_nodes s)\<rparr>)" for s
    using assms(4,5) k by (auto simp: process_known_event_def Let_def)
  show ?thesis
  proof (cases "(event_type ev = NodeEventType_DELETED \<or> status ?evn = NodeStatus_DELETED)
                   \<and> \<not> is_positive_exit (exit_reason ?evn)
                   \<and> running_pod_exists
                        (list_namespaced_pod e (get_pod_unique_labels st ?evn))")
    case True
    then have "process_event e st ev
        = Done (st\<lparr>pod_queries := pod_queries st @ [get_pod_unique_labels st ?evn]\<rparr>)"
      by (simp add: process_event_def Let_def)
    with True assms(1) k update_info_frame [of cur ?evn] show ?thesis by simp
  next
    case False
    then have "process_event e st ev
        = Done ((if (event_type ev = NodeEventType_DELETED \<or> status ?evn = NodeStatus_DELETED)
                    \<and> \<not> is_positive_exit (exit_reason ?evn)
                 then st\<lparr>pod_queries := pod_queries st @ [get_pod_unique_labels st ?evn]\<rparr>
                 else st)
               \<lparr>job_nodes := update_job_node (update_info cur ?evn) (job_nodes st)\<rparr>)"
      using n c known by (auto simp: process_event_def Let_def)
    with False k update_info_frame [of cur ?evn] show ?thesis
      by (auto simp: job_node_update_job_node)
  qed
qed

theorem process_event_no_flow_witness:
  "job_node [(NodeType_WORKER, [(4, example_node\<lparr>status := NodeStatus_SUCCEEDED\<rparr>)])] NodeType_WORKER 4
      = Some (example_node\<lparr>status := NodeStatus_SUCCEEDED\<rparr>)
   \<and> get_node_state_flow example_env NodeStatus_SUCCEEDED NodeEventType_MODIFIED NodeStatus_RUNNING
      = None
   \<and> (\<exists>st'. process_event example_env
          (example_manager
            \<lparr>job_nodes := [(NodeType_WORKER, [(4, example_node\<lparr>status := NodeStatus_SUCCEEDED\<rparr>)])]\<rparr>)
          \<lparr>event_type = NodeEventType_MODIFIED,
           event_node = example_node\<lparr>name := Some ''test-edljob-worker-4-new''\<rparr>\<rparr> = Done st'
        \<and> job_node (job_nodes st') NodeType_WORKER 4
            = Some (update_info (example_node\<lparr>status := NodeStatus_SUCCEEDED\<rparr>)
                      (example_node\<lparr>name := Some ''test-edljob-worker-4-new''\<rparr>))
        \<and> scaled st' = [] \<and> reports st' = [] \<and> callback_calls st' = [])
   \<and> (\<exists>st'. process_event
          (example_env\<lparr>get_node_state_flow := (\<lambda>old_status t new_status.
             Some \<lparr>from_status = old_status, to_status = NodeStatus_DELETED,
                   should_relaunch = False\<rparr>)\<rparr>)
          (example_manager
            \<lparr>job_nodes := [(NodeType_WORKER, [(4, example_node\<lparr>status := NodeStatus_SUCCEEDED\<rparr>)])]\<rparr>)
          \<lparr>event_type = NodeEventType_DELETED,
           event_node = example_node\<lparr>status := NodeStatus_DELETED\<rparr>\<rparr> = Done st'
        \<and> job_node (job_nodes st') NodeType_WORKER 4
            = Some (update_info (example_node\<lparr>status := NodeStatus_SUCCEEDED\<rparr>)
                      (example_node\<lparr>status := NodeStatus_DELETED\<rparr>))
        \<and> scaled st' = [] \<and> reports st' = [] \<and> callback_calls st' = [])"
  using process_event_no_flow [of
      "example_manager
        \<lparr>job_nodes := [(NodeType_WORKER, [(4, example_node\<lparr>status := NodeStatus_SUCCEEDED\<rparr>)])]\<rparr>"
      "\<lparr>event_type = NodeEventType_MODIFIED,
        event_node = example_node\<lparr>name := Some ''test-edljob-worker-4-new''\<rparr>\<rparr>"
      "example_node\<lparr>status := NodeStatus_SUCCEEDED\<rparr>" example_env]
    process_event_no_flow [of
      "example_manager
        \<lparr>job_nodes := [(NodeType_WORKER, [(4, example_node\<lparr>status := NodeStatus_SUCCEEDED\<rparr>)])]\<rparr>"
      "\<lparr>event_type = NodeEventType_DELETED,
        event_node = example_node\<lparr>status := NodeStatus_DELETED\<rparr>\<rparr>"
      "example_node\<lparr>status := NodeStatus_SUCCEEDED\<rparr>"
      "example_env\<lparr>get_node_state_flow := (\<lambda>old_status t new_status.
             Some \<lparr>from_status = old_status, to_status = NodeStatus_DELETED,
                   should_relaunch = False\<rparr>)\<rparr>"]
  by (simp add: example_defs example_state_flow_def job_node_def is_positive_exit_def
      running_pod_exists_def) blast

section \<open>Terminal statuses\<close>

lemma stored_under_own_keyD:
  assumes "stored_under_own_key jn" and "job_node jn t i = Some n"
  shows "type_n n = t \<and> id_n n = i"
proof -
  from assms(2) obtain nodes where a: "map_of jn t = Some nodes" and b: "map_of nodes i = Some n"
    by (auto simp: job_node_def split: option.splits)
  from a have "(t, nodes) \<in> set jn" by (rule map_of_SomeD)
  with assms(1) have "list_all (\<lambda>(i, n). type_n n = t \<and> id_n n = i) nodes"
    by (auto simp: stored_under_own_key_def list_all_iff)
  moreover from b have "(i, n) \<in> set nodes" by (rule map_of_SomeD)
  ultimately show ?thesis by (auto simp: list_all_iff)
qed

lemma process_event_keeps_succeeded:
  assumes own: "type_n cur = type_n (event_node ev)" "id_n cur = id_n (event_node ev)"
    and found: "job_node (job_nodes st) (type_n (event_node ev)) (id_n (event_node ev)) = Some cur"
    and succ: "status cur = NodeStatus_SUCCEEDED"
    and table: "\<forall>t new f. get_node_state_flow e NodeStatus_SUCCEEDED t new = Some f
                 \<longrightarrow> from_status f = NodeStatus_SUCCEEDED"
  shows "\<exists>cur'. job_node (job_nodes (state_of (process_event e st ev)))
                  (type_n (event_node ev)) (id_n (event_node ev)) = Some cur'
           \<and> status cur' = NodeStatus_SUCCEEDED"
proof -
  let ?evn = "event_node ev"
  let ?cur1 = "update_info cur ?evn"
  obtain nodes where n: "map_of (job_nodes st) (type_n ?evn) = Some nodes"
      and c: "map_of nodes (id_n ?evn) = Some cur"
    using found by (auto simp: job_node_def split: option.splits)
  have k: "status ?cur1 = NodeStatus_SUCCEEDED" "type_n ?cur1 = type_n ?evn" "id_n ?cur1 = id_n ?evn"
    using update_info_keeps [of cur ?evn] own succ by simp_all
  have known: "job_nodes (state_of (process_known_event e s ev cur))
      = update_job_node ?cur1 (job_nodes s)" for s
    using k table
    by (auto simp: process_known_event_def Let_def close_job_def split: option.splits)
  have "job_nodes (state_of (process_event e st ev)) = job_nodes st
      \<or> job_nodes (state_of (process_event e st ev)) = update_job_node ?cur1 (job_nodes st)"
    using n c known by (auto simp: process_event_def Let_def)
  then show ?thesis
    using found succ k by (auto simp: job_node_update_job_node)
qed

lemma process_reported_node_event_status:
  assumes "stored_under_own_key (job_nodes st)"
  shows "map_option status (job_node (job_nodes (process_reported_node_event st ev)) t i)
     = map_option status (job_node (job_nodes st) t i)"
proof (cases "job_node (job_nodes st) (type_n (event_node ev)) (id_n (event_node ev))")
  case None
  then show ?thesis by (simp add: process_reported_node_event_def)
next
  case (Some n)
  with assms have "type_n n = type_n (event_node ev) \<and> id_n n = id_n (event_node ev)"
    by (rule stored_under_own_keyD)
  with Some show ?thesis
    by (auto simp: process_reported_node_event_def Let_def job_node_update_job_node
        update_reported_status_def)
qed

lemma update_node_service_addr_status:
  assumes "stored_under_own_key (job_nodes st)" and "job_node (job_nodes st) t i = Some n"
  shows "map_option status (job_node (job_nodes (update_node_service_addr st t i a)) t i)
     = Some NodeStatus_RUNNING"
proof -
  from assms have "type_n n = t \<and> id_n n = i" by (rule stored_under_own_keyD)
  with assms(2) show ?thesis
    by (simp add: update_node_service_addr_def job_node_update_job_node update_service_address_def)
qed

text \<open>
  A succeeded worker reports its service address and is running again; the next event
  makes it failed. The node has had two terminal statuses and has left succeeded.
\<close>

theorem terminal_status_counterexample:
  "map_option status (job_node (job_nodes (example_manager
        \<lparr>job_nodes := [(NodeType_WORKER, [(4, example_node\<lparr>status := NodeStatus_SUCCEEDED\<rparr>)])]\<rparr>))
      NodeType_WORKER 4) = Some NodeStatus_SUCCEEDED
   \<and> map_option status (job_node (job_nodes (update_node_service_addr (example_manager
        \<lparr>job_nodes := [(NodeType_WORKER, [(4, example_node\<lparr>status := NodeStatus_SUCCEEDED\<rparr>)])]\<rparr>)
        NodeType_WORKER 4 ''test-edljob-worker-4.default.svc:3333''))
      NodeType_WORKER 4) = Some NodeStatus_RUNNING
   \<and> map_option status (job_node (job_nodes (state_of (process_event example_env
        (update_node_service_addr (example_manager
          \<lparr>job_nodes := [(NodeType_WORKER, [(4, example_node\<lparr>status := NodeStatus_SUCCEEDED\<rparr>)])]\<rparr>)
          NodeType_WORKER 4 ''test-edljob-worker-4.default.svc:3333'')
        \<lparr>event_type = NodeEventType_MODIFIED,
         event_node = example_node\<lparr>status := NodeStatus_FAILED,
                                    exit_reason := NodeExitReason_FATAL_ERROR\<rparr>\<rparr>)))
      NodeType_WORKER 4) = Some NodeStatus_FAILED"
  by (simp add: example_defs example_state_flow_def update_node_service_addr_def
      update_service_address_def process_event_def process_known_event_def
      is_positive_exit_def update_info_def Let_def update_job_node_def job_node_def
      update_status_def set_exit_reason_def process_node_events_def
      should_relaunch_node_def recheck_should_relaunch_def)

text \<open>
  C6 (amended). In a store that keeps every node under its own type and id, and with a
  state-flow table that answers a succeeded node with none or with a row from succeeded:
  an event processed by \<^verbatim>\<open>_process_event\<close> for a succeeded node leaves that node
  succeeded, and \<^verbatim>\<open>process_reported_node_event\<close> changes the status of no node.
  \<^verbatim>\<open>update_node_service_addr\<close> makes the node it finds running, whatever its status was.
\<close>

theorem succeeded_kept_by_events:
  assumes "stored_under_own_key (job_nodes st)"
  shows "(job_node (job_nodes st) (type_n (event_node ev)) (id_n (event_node ev)) = Some cur
          \<and> status cur = NodeStatus_SUCCEEDED
          \<and> (\<forall>t new f. get_node_state_flow e NodeStatus_SUCCEEDED t new = Some f
                \<longrightarrow> from_status f = NodeStatus_SUCCEEDED)
        \<longrightarrow> map_option status (job_node (job_nodes (state_of (process_event e st ev)))
               (type_n (event_node ev)) (id_n (event_node ev))) = Some NodeStatus_SUCCEEDED)
    \<and> map_option status (job_node (job_nodes (process_reported_node_event st reported)) t i)
        = map_option status (job_node (job_nodes st) t i)
    \<and> (job_node (job_nodes st) t i = Some n
        \<longrightarrow> map_option status (job_node (job_nodes (update_node_service_addr st t i a)) t i)
            = Some NodeStatus_RUNNING)"
proof (intro conjI impI)
  assume a: "job_node (job_nodes st) (type_n (event_node ev)) (id_n (event_node ev)) = Some cur
          \<and> status cur = NodeStatus_SUCCEEDED
          \<and> (\<forall>t new f. get_node_state_flow e NodeStatus_SUCCEEDED t new = Some f
                \<longrightarrow> from_status f = NodeStatus_SUCCEEDED)"
  with assms have own: "type_n cur = type_n (event_node ev) \<and> id_n cur = id_n (event_node ev)"
    by (blast dest: stored_under_own_keyD)
  from process_event_keeps_succeeded [of cur ev st e] own a
  obtain cur' where "job_node (job_nodes (state_of (process_event e st ev)))
                  (type_n (event_node ev)) (id_n (event_node ev)) = Some cur'"
      and "status cur' = NodeStatus_SUCCEEDED"
    by blast
  then show "map_option status (job_node (job_nodes (state_of (process_event e st ev)))
               (type_n (event_node ev)) (id_n (event_node ev))) = Some NodeStatus_SUCCEEDED"
    by simp
next
  show "map_option status (job_node (job_nodes (process_reported_node_event st reported)) t i)
        = map_option status (job_node (job_nodes st) t i)"
    using assms by (rule process_reported_node_event_status)
next
  assume "job_node (job_nodes st) t i = Some n"
  with assms show "map_option status (job_node (job_nodes (update_node_service_addr st t i a)) t i)
            = Some NodeStatus_RUNNING"
    by (rule update_node_service_addr_status)
qed

lemma example_state_flow_from_succeeded:
  "\<forall>t new f. example_state_flow NodeStatus_SUCCEEDED t new = Some f
      \<longrightarrow> from_status f = NodeStatus_SUCCEEDED"
  by (simp add: example_state_flow_def)

theorem succeeded_kept_by_events_witness:
  "stored_under_own_key [(NodeType_WORKER, [(4, example_node\<lparr>status := NodeStatus_SUCCEEDED\<rparr>)])]
   \<and> map_option status (job_node (job_nodes (state_of (process_event example_env
        (example_manager
          \<lparr>job_nodes := [(NodeType_WORKER, [(4, example_node\<lparr>status := NodeStatus_SUCCEEDED\<rparr>)])]\<rparr>)
        \<lparr>event_type = NodeEventType_DELETED,
         event_node = example_node\<lparr>status := NodeStatus_DELETED\<rparr>\<rparr>)))
      NodeType_WORKER 4) = Some NodeStatus_SUCCEEDED
   \<and> map_option status (job_node (job_nodes (process_reported_node_event
        (example_manager
          \<lparr>job_nodes := [(NodeType_WORKER, [(4, example_node\<lparr>status := NodeStatus_SUCCEEDED\<rparr>)])]\<rparr>)
        \<lparr>event_type = NodeEventType_SUCCEEDED_EXITED, event_node = example_node\<rparr>))
      NodeType_WORKER 4) = Some NodeStatus_SUCCEEDED"
  using succeeded_kept_by_events [where
      st = "example_manager
          \<lparr>job_nodes := [(NodeType_WORKER, [(4, example_node\<lparr>status := NodeStatus_SUCCEEDED\<rparr>)])]\<rparr>"
      and ev = "\<lparr>event_type = NodeEventType_DELETED,
         event_node = example_node\<lparr>status := NodeStatus_DELETED\<rparr>\<rparr>"
      and cur = "example_node\<lparr>status := NodeStatus_SUCCEEDED\<rparr>" and e = example_env
      and reported = "\<lparr>event_type = NodeEventType_SUCCEEDED_EXITED, event_node = example_node\<rparr>"
      and t = NodeType_WORKER and i = 4]
    example_state_flow_from_succeeded
  by (simp add: example_defs stored_under_own_key_def job_node_def)

section \<open>After the stop\<close>

lemma all_nodes_Nil: "all_nodes [] = []"
  by (simp add: all_nodes_def)

lemma all_nodes_Cons: "all_nodes ((t, nodes) # jn) = map snd nodes @ all_nodes jn"
  by (simp add: all_nodes_def)

lemma all_nodes_map_nodes:
  "all_nodes (map_nodes f jn) = map f (all_nodes jn)"
  by (induction jn) (auto simp: all_nodes_def map_nodes_def)

lemma all_nodes_update:
  "set (all_nodes (AList.update k v jn)) \<subseteq> set (all_nodes jn) \<union> snd ` set v"
proof (induction jn)
  case Nil
  show ?case by (simp add: all_nodes_Nil all_nodes_Cons)
next
  case (Cons x jn)
  obtain t nodes where x: "x = (t, nodes)" by (cases x)
  show ?case
  proof (cases "t = k")
    case True
    with x show ?thesis by (auto simp: all_nodes_Cons)
  next
    case False
    with x Cons show ?thesis by (auto simp: all_nodes_Cons)
  qed
qed

lemma all_nodes_lookup:
  "map_of jn k = Some nodes \<Longrightarrow> snd ` set nodes \<subseteq> set (all_nodes jn)"
  by (force simp: all_nodes_def dest: map_of_SomeD)

lemma stop_releases:
  assumes "stop e st = Done st'" and "\<not> stopped st"
  shows "stopped st' \<and> \<not> enable_relaunch_node st' \<and> scaled st' = scaled st
    \<and> list_all (\<lambda>n. \<not> critical n \<and> is_released n \<and> \<not> relaunchable n) (all_nodes (job_nodes st'))"
proof -
  let ?f = "\<lambda>n. n\<lparr>critical := False, is_released := True, relaunchable := False\<rparr>"
  let ?P = "\<lambda>n. \<not> critical n \<and> is_released n \<and> \<not> relaunchable n"
  let ?jn = "map_nodes ?f (job_nodes st)"
  from assms obtain workers where w: "map_of ?jn NodeType_WORKER = Some workers"
    and st': "st' = st\<lparr>enable_relaunch_node := False,
        job_nodes := AList.update NodeType_WORKER
          (map (\<lambda>(i, n). (i, n\<lparr>eval_time := get_worker_eval_time e (id_n n)\<rparr>)) workers) ?jn,
        stopped := True\<rparr>"
    by (auto simp: stop_def Let_def split: option.splits)
  have all: "\<forall>n\<in>set (all_nodes ?jn). ?P n"
    by (simp add: all_nodes_map_nodes)
  with all_nodes_lookup [OF w] have ws: "\<forall>n\<in>snd ` set workers. ?P n" by blast
  have "\<forall>n\<in>set (all_nodes (job_nodes st')). ?P n"
  proof
    fix n assume "n \<in> set (all_nodes (job_nodes st'))"
    with st' all_nodes_update [of NodeType_WORKER
        "map (\<lambda>(i, n). (i, n\<lparr>eval_time := get_worker_eval_time e (id_n n)\<rparr>)) workers" ?jn]
    have "n \<in> set (all_nodes ?jn)
        \<or> n \<in> snd ` set (map (\<lambda>(i, n). (i, n\<lparr>eval_time := get_worker_eval_time e (id_n n)\<rparr>)) workers)"
      by auto
    then show "?P n"
    proof
      assume "n \<in> set (all_nodes ?jn)"
      with all show ?thesis by blast
    next
      assume "n \<in> snd ` set (map (\<lambda>(i, n). (i, n\<lparr>eval_time := get_worker_eval_time e (id_n n)\<rparr>)) workers)"
      then obtain i m where "(i, m) \<in> set workers"
          and "n = m\<lparr>eval_time := get_worker_eval_time e (id_n m)\<rparr>"
        by auto
      with ws show ?thesis by force
    qed
  qed
  with st' show ?thesis by (simp add: list_all_iff)
qed

lemma clear_exited_nodes_released:
  assumes "list_all is_released (all_nodes (job_nodes st))"
  shows "scaled (clear_exited_nodes e st) = scaled st"
proof -
  from assms have "filter (\<lambda>n. \<not> is_released n \<and> exited e n) (all_nodes (job_nodes st)) = []"
    by (auto simp: list_all_iff filter_empty_conv)
  then show ?thesis by (simp add: clear_exited_nodes_def Let_def)
qed

lemma clear_all_nodes_released:
  assumes "list_all is_released (all_nodes (job_nodes st))"
  shows "scaled (clear_all_nodes st) = scaled st @ [ScalePlan]"
proof -
  from assms have "filter (\<lambda>n. \<not> is_released n) (all_nodes (job_nodes st)) = []"
    by (auto simp: list_all_iff filter_empty_conv)
  then show ?thesis by (simp add: clear_all_nodes_def Let_def ScalePlan_def)
qed

lemma process_known_event_disabled_plans:
  assumes "\<not> enable_relaunch_node st"
  shows "\<not> enable_relaunch_node (state_of (process_known_event e st ev cur))
    \<and> scaled (state_of (process_known_event e st ev cur))
       = scaled st
         @ (if event_type ev = NodeEventType_exit
            then [ScalePlan\<lparr>node_group_resources := [(NodeType_WORKER, 0), (NodeType_PS, 0)]\<rparr>]
            else [])"
  using assms
  by (simp add: process_known_event_def Let_def should_relaunch_node_disabled
      process_node_events_frame close_job_def split: option.splits)

lemma process_event_disabled_plans:
  assumes "\<not> enable_relaunch_node st"
  shows "\<not> enable_relaunch_node (state_of (process_event e st ev))
    \<and> (scaled (state_of (process_event e st ev)) = scaled st
        \<or> event_type ev = NodeEventType_exit
          \<and> scaled (state_of (process_event e st ev))
             = scaled st
               @ [ScalePlan\<lparr>node_group_resources := [(NodeType_WORKER, 0), (NodeType_PS, 0)]\<rparr>])"
  using assms
  by (auto simp: process_event_def Let_def process_known_event_disabled_plans split: option.splits)

lemma clear_exited_nodes_plans:
  "enable_relaunch_node (clear_exited_nodes e st) = enable_relaunch_node st
   \<and> (scaled (clear_exited_nodes e st) = scaled st
       \<or> (\<exists>ns. scaled (clear_exited_nodes e st) = scaled st @ [ScalePlan\<lparr>remove_nodes := ns\<rparr>]))"
  by (auto simp: clear_exited_nodes_def Let_def)

lemma clear_all_nodes_plans:
  "enable_relaunch_node (clear_all_nodes st) = enable_relaunch_node st
   \<and> (\<exists>ns. scaled (clear_all_nodes st) = scaled st @ [ScalePlan\<lparr>remove_nodes := ns\<rparr>])"
  by (auto simp: clear_all_nodes_def Let_def)

lemma run_call_disabled:
  assumes "\<not> enable_relaunch_node st"
  shows "\<not> enable_relaunch_node (state_of (run_call e st c))
    \<and> (\<exists>ps. scaled (state_of (run_call e st c)) = scaled st @ ps
          \<and> (\<forall>p\<in>set ps. launch_nodes p = [] \<and> ps_addrs p = []
                \<and> (node_group_resources p = []
                    \<or> node_group_resources p = [(NodeType_WORKER, 0), (NodeType_PS, 0)]
                      \<and> remove_nodes p = [])))"
proof (cases c)
  case (Call_process_event ev)
  from process_event_disabled_plans [OF assms, of e ev]
  have en: "\<not> enable_relaunch_node (state_of (process_event e st ev))"
    and sc: "scaled (state_of (process_event e st ev)) = scaled st @ []
        \<or> scaled (state_of (process_event e st ev))
             = scaled st
               @ [ScalePlan\<lparr>node_group_resources := [(NodeType_WORKER, 0), (NodeType_PS, 0)]\<rparr>]"
    by auto
  from sc show ?thesis
  proof
    assume "scaled (state_of (process_event e st ev)) = scaled st @ []"
    with en Call_process_event show ?thesis
      by (intro conjI exI [of _ "[]"]) simp_all
  next
    assume "scaled (state_of (process_event e st ev))
             = scaled st
               @ [ScalePlan\<lparr>node_group_resources := [(NodeType_WORKER, 0), (NodeType_PS, 0)]\<rparr>]"
    with en Call_process_event show ?thesis
      by (intro conjI
          exI [of _ "[ScalePlan\<lparr>node_group_resources := [(NodeType_WORKER, 0), (NodeType_PS, 0)]\<rparr>]"])
        (simp_all add: ScalePlan_def)
  qed
next
  case (Call_process_reported_node_event ev)
  have "scaled (process_reported_node_event st ev) = scaled st
      \<and> enable_relaunch_node (process_reported_node_event st ev) = enable_relaunch_node st"
    by (simp add: process_reported_node_event_def Let_def split: option.splits)
  with assms Call_process_reported_node_event show ?thesis
    by (intro conjI exI [of _ "[]"]) simp_all
next
  case Call_clear_exited_nodes
  from clear_exited_nodes_plans [of e st]
  have en: "enable_relaunch_node (clear_exited_nodes e st) = enable_relaunch_node st"
    and sc: "scaled (clear_exited_nodes e st) = scaled st @ []
       \<or> (\<exists>ns. scaled (clear_exited_nodes e st) = scaled st @ [ScalePlan\<lparr>remove_nodes := ns\<rparr>])"
    by auto
  from sc show ?thesis
  proof
    assume "scaled (clear_exited_nodes e st) = scaled st @ []"
    with en assms Call_clear_exited_nodes show ?thesis
      by (intro conjI exI [of _ "[]"]) simp_all
  next
    assume "\<exists>ns. scaled (clear_exited_nodes e st) = scaled st @ [ScalePlan\<lparr>remove_nodes := ns\<rparr>]"
    then obtain ns where "scaled (clear_exited_nodes e st) = scaled st @ [ScalePlan\<lparr>remove_nodes := ns\<rparr>]"
      by blast
    with en assms Call_clear_exited_nodes show ?thesis
      by (intro conjI exI [of _ "[ScalePlan\<lparr>remove_nodes := ns\<rparr>]"]) (simp_all add: ScalePlan_def)
  qed
next
  case Call_clear_all_nodes
  from clear_all_nodes_plans [of st]
  obtain ns where en: "enable_relaunch_node (clear_all_nodes st) = enable_relaunch_node st"
    and "scaled (clear_all_nodes st) = scaled st @ [ScalePlan\<lparr>remove_nodes := ns\<rparr>]"
    by blast
  with assms Call_clear_all_nodes show ?thesis
    by (intro conjI exI [of _ "[ScalePlan\<lparr>remove_nodes := ns\<rparr>]"]) (simp_all add: ScalePlan_def)
next
  case (Call_update_node_service_addr t i a)
  have "scaled (update_node_service_addr st t i a) = scaled st
      \<and> enable_relaunch_node (update_node_service_addr st t i a) = enable_relaunch_node st"
    by (simp add: update_node_service_addr_def split: option.splits)
  with assms Call_update_node_service_addr show ?thesis
    by (intro conjI exI [of _ "[]"]) simp_all
qed

lemma run_calls_step:
  "run_calls e st (c # cs)
     = (case run_call e st c of ProcessExit st' \<Rightarrow> st' | _ \<Rightarrow> run_calls e (state_of (run_call e st c)) cs)"
  by (simp split: outcome.splits)

lemma run_calls_disabled:
  assumes "\<not> enable_relaunch_node st"
  shows "\<not> enable_relaunch_node (run_calls e st cs)
    \<and> (\<exists>ps. scaled (run_calls e st cs) = scaled st @ ps
          \<and> (\<forall>p\<in>set ps. launch_nodes p = [] \<and> ps_addrs p = []
                \<and> (node_group_resources p = []
                    \<or> node_group_resources p = [(NodeType_WORKER, 0), (NodeType_PS, 0)]
                      \<and> remove_nodes p = [])))"
  using assms
proof (induction cs arbitrary: st)
  case Nil
  then show ?case by (intro conjI exI [of _ "[]"]) simp_all
next
  case (Cons c cs)
  let ?Q = "\<lambda>p. launch_nodes p = [] \<and> ps_addrs p = []
                \<and> (node_group_resources p = []
                    \<or> node_group_resources p = [(NodeType_WORKER, 0), (NodeType_PS, 0)]
                      \<and> remove_nodes p = [])"
  let ?s1 = "state_of (run_call e st c)"
  from run_call_disabled [OF Cons.prems, of e c]
  obtain ps1 where en1: "\<not> enable_relaunch_node ?s1"
    and sc1: "scaled ?s1 = scaled st @ ps1" and q1: "\<forall>p\<in>set ps1. ?Q p"
    by blast
  show ?case
  proof (cases "\<exists>st'. run_call e st c = ProcessExit st'")
    case True
    then have "run_calls e st (c # cs) = ?s1" by auto
    with en1 sc1 q1 show ?thesis by (intro conjI exI [of _ ps1]) simp_all
  next
    case False
    then have eq: "run_calls e st (c # cs) = run_calls e ?s1 cs"
      by (cases "run_call e st c") simp_all
    from Cons.IH [OF en1]
    obtain ps2 where en2: "\<not> enable_relaunch_node (run_calls e ?s1 cs)"
      and sc2: "scaled (run_calls e ?s1 cs) = scaled ?s1 @ ps2" and q2: "\<forall>p\<in>set ps2. ?Q p"
      by blast
    from en2 sc2 sc1 q1 q2 eq show ?thesis
      by (intro conjI exI [of _ "ps1 @ ps2"]) auto
  qed
qed

text \<open>
  After \<^verbatim>\<open>stop\<close> has returned, \<^verbatim>\<open>clear_all_nodes\<close> passes a plan to the scaler: it
  calls \<^verbatim>\<open>scale\<close> whether or not the plan removes a node. An event that reports the
  worker failed and not released makes \<^verbatim>\<open>clear_exited_nodes\<close> pass a plan that removes
  the worker, and an \<^verbatim>\<open>"exit"\<close> event passes the plan of \<^verbatim>\<open>close_job\<close>.
\<close>

theorem plan_after_stop_counterexample:
  "stop example_env example_manager = Done (state_of (stop example_env example_manager))
   \<and> stopped (state_of (stop example_env example_manager))
   \<and> scaled (state_of (stop example_env example_manager)) = []
   \<and> scaled (clear_all_nodes (state_of (stop example_env example_manager))) = [ScalePlan]
   \<and> map (map id_n \<circ> remove_nodes)
        (scaled (clear_exited_nodes example_env
          (state_of (process_event example_env (state_of (stop example_env example_manager))
             \<lparr>event_type = NodeEventType_MODIFIED,
              event_node = example_node\<lparr>status := NodeStatus_FAILED\<rparr>\<rparr>)))) = [[4]]
   \<and> scaled (state_of (process_event example_env (state_of (stop example_env example_manager))
        \<lparr>event_type = NodeEventType_exit, event_node = example_node\<rparr>))
      = [ScalePlan\<lparr>node_group_resources := [(NodeType_WORKER, 0), (NodeType_PS, 0)]\<rparr>]"
  by (simp add: example_defs example_state_flow_def stop_def map_nodes_def Let_def
      clear_all_nodes_def clear_exited_nodes_def all_nodes_def ScalePlan_def
      process_event_def process_known_event_def is_positive_exit_def update_info_def
      update_job_node_def update_status_def set_exit_reason_def process_node_events_def
      should_relaunch_node_def close_job_def)

text \<open>
  C9 (amended). When \<^verbatim>\<open>stop\<close> has completed, every node is non-critical, released and
  non-relaunchable, relaunch is disabled and the stopped flag is set, and \<^verbatim>\<open>stop\<close> has
  passed no plan; in that state \<^verbatim>\<open>clear_exited_nodes\<close> passes no plan and
  \<^verbatim>\<open>clear_all_nodes\<close> passes one plan, which is empty. Through every later history of
  calls (events of the pipeline, events reported by the agents, \<^verbatim>\<open>clear_exited_nodes\<close>,
  \<^verbatim>\<open>clear_all_nodes\<close>, service addresses) relaunch stays disabled and no plan passed to
  the scaler launches a node or carries parameter-server addresses: each plan only
  removes nodes, or is the plan of \<^verbatim>\<open>close_job\<close> with its two empty groups. At every
  point of such a history \<^verbatim>\<open>_process_event\<close> passes no plan for an event other than
  \<^verbatim>\<open>"exit"\<close>.
\<close>

theorem no_relaunch_after_stop:
  assumes "stop e st = Done st'" and "\<not> stopped st"
  shows "stopped st' \<and> \<not> enable_relaunch_node st' \<and> scaled st' = scaled st
    \<and> list_all (\<lambda>n. \<not> critical n \<and> is_released n \<and> \<not> relaunchable n) (all_nodes (job_nodes st'))
    \<and> scaled (clear_exited_nodes e st') = scaled st'
    \<and> scaled (clear_all_nodes st') = scaled st' @ [ScalePlan]
    \<and> \<not> enable_relaunch_node (run_calls e st' cs)
    \<and> (\<exists>ps. scaled (run_calls e st' cs) = scaled st' @ ps
          \<and> (\<forall>p\<in>set ps. launch_nodes p = [] \<and> ps_addrs p = []
                \<and> (node_group_resources p = []
                    \<or> node_group_resources p = [(NodeType_WORKER, 0), (NodeType_PS, 0)]
                      \<and> remove_nodes p = [])))
    \<and> (event_type ev \<noteq> NodeEventType_exit
        \<longrightarrow> scaled (state_of (process_event e (run_calls e st' cs) ev))
            = scaled (run_calls e st' cs))"
proof -
  note r = stop_releases [OF assms]
  then have rel: "list_all is_released (all_nodes (job_nodes st'))"
    by (simp add: list_all_iff)
  from r have dis: "\<not> enable_relaunch_node st'" by simp
  note h = run_calls_disabled [OF dis, of e cs]
  then have later: "\<not> enable_relaunch_node (run_calls e st' cs)" by simp
  have ev: "event_type ev \<noteq> NodeEventType_exit
        \<longrightarrow> scaled (state_of (process_event e (run_calls e st' cs) ev))
            = scaled (run_calls e st' cs)"
    using process_event_disabled [OF later, of ev e] by simp
  from r rel h ev show ?thesis
    by (simp add: clear_exited_nodes_released clear_all_nodes_released)
qed

theorem no_relaunch_after_stop_witness:
  "stop example_env example_manager = Done (state_of (stop example_env example_manager))
   \<and> \<not> stopped example_manager
   \<and> scaled (clear_exited_nodes example_env (state_of (stop example_env example_manager))) = []
   \<and> \<not> enable_relaunch_node (run_calls example_env (state_of (stop example_env example_manager))
        [Call_process_event \<lparr>event_type = NodeEventType_MODIFIED,
           event_node = example_node\<lparr>status := NodeStatus_FAILED\<rparr>\<rparr>,
         Call_clear_exited_nodes, Call_clear_all_nodes])
   \<and> scaled (state_of (process_event example_env
        (run_calls example_env (state_of (stop example_env example_manager))
          [Call_process_event \<lparr>event_type = NodeEventType_MODIFIED,
             event_node = example_node\<lparr>status := NodeStatus_FAILED\<rparr>\<rparr>,
           Call_clear_exited_nodes, Call_clear_all_nodes])
        \<lparr>event_type = NodeEventType_MODIFIED,
         event_node = example_node\<lparr>status := NodeStatus_FAILED,
           exit_reason := NodeExitReason_KILLED\<rparr>\<rparr>))
      = scaled (run_calls example_env (state_of (stop example_env example_manager))
          [Call_process_event \<lparr>event_type = NodeEventType_MODIFIED,
             event_node = example_node\<lparr>status := NodeStatus_FAILED\<rparr>\<rparr>,
           Call_clear_exited_nodes, Call_clear_all_nodes])"
proof -
  have d: "stop example_env example_manager = Done (state_of (stop example_env example_manager))"
    by (simp add: example_manager_def stop_def map_nodes_def Let_def)
  have s: "\<not> stopped example_manager"
    by (simp add: example_manager_def)
  from no_relaunch_after_stop [OF d s, where
      cs = "[Call_process_event \<lparr>event_type = NodeEventType_MODIFIED,
             event_node = example_node\<lparr>status := NodeStatus_FAILED\<rparr>\<rparr>,
           Call_clear_exited_nodes, Call_clear_all_nodes]"
      and ev = "\<lparr>event_type = NodeEventType_MODIFIED,
         event_node = example_node\<lparr>status := NodeStatus_FAILED,
           exit_reason := NodeExitReason_KILLED\<rparr>\<rparr>"]
  have "scaled (clear_exited_nodes example_env (state_of (stop example_env example_manager)))
          = scaled example_manager
    \<and> \<not> enable_relaunch_node (run_calls example_env (state_of (stop example_env example_manager))
        [Call_process_event \<lparr>event_type = NodeEventType_MODIFIED,
           event_node = example_node\<lparr>status := NodeStatus_FAILED\<rparr>\<rparr>,
         Call_clear_exited_nodes, Call_clear_all_nodes])
    \<and> scaled (state_of (process_event example_env
        (run_calls example_env (state_of (stop example_env example_manager))
          [Call_process_event \<lparr>event_type = NodeEventType_MODIFIED,
             event_node = example_node\<lparr>status := NodeStatus_FAILED\<rparr>\<rparr>,
           Call_clear_exited_nodes, Call_clear_all_nodes])
        \<lparr>event_type = NodeEventType_MODIFIED,
         event_node = example_node\<lparr>status := NodeStatus_FAILED,
           exit_reason := NodeExitReason_KILLED\<rparr>\<rparr>))
      = scaled (run_calls example_env (state_of (stop example_env example_manager))
          [Call_process_event \<lparr>event_type = NodeEventType_MODIFIED,
             event_node = example_node\<lparr>status := NodeStatus_FAILED\<rparr>\<rparr>,
           Call_clear_exited_nodes, Call_clear_all_nodes])"
    by simp
  with d s show ?thesis by (simp add: example_manager_def)
qed

section \<open>Early stop and reported events\<close>

text \<open>
  C8. \<^verbatim>\<open>should_early_stop\<close> tests four conditions in this order and answers with the
  first that holds: all initial workers failed the node check, for an all-reduce job
  (\<^verbatim>\<open>NODE_CHECK_FAILED\<close>); a parameter server recovered from out-of-memory is pending
  past its timeout (\<^verbatim>\<open>PENDING_TIMEOUT\<close>); the parameter-server manager or the worker
  manager finds a pending node that makes the training hang (\<^verbatim>\<open>PENDING_TIMEOUT\<close>);
  the workers are insufficient, for an all-reduce job (\<^verbatim>\<open>UNCOMPLETED_TIMEOUT\<close>). Each
  answer is true with its reason and its message. When none holds the answer is false
  with two empty strings, and nothing else happens.
\<close>

theorem should_early_stop_order:
  "(is_all_reduce_type_job st
      \<and> is_all_initial_workers_node_check_failed m (job_nodes st) (worker_num st)
    \<longrightarrow> fst (should_early_stop m st)
          = (True, JobExitReason_NODE_CHECK_FAILED, msg_node_check_failed))
   \<and> (\<not> (is_all_reduce_type_job st
           \<and> is_all_initial_workers_node_check_failed m (job_nodes st) (worker_num st))
       \<and> get_pending_timeout_oom_recovered_node m (job_nodes st) \<noteq> []
    \<longrightarrow> fst (should_early_stop m st)
          = (True, JobExitReason_PENDING_TIMEOUT, msg_oom_pending_timeout))
   \<and> (\<not> (is_all_reduce_type_job st
           \<and> is_all_initial_workers_node_check_failed m (job_nodes st) (worker_num st))
       \<and> get_pending_timeout_oom_recovered_node m (job_nodes st) = []
       \<and> (ps_find_pending_node_caused_training_hang m (job_nodes st) (ps_num st)
              (distribution_strategy st) \<noteq> None
           \<or> worker_find_pending_node_caused_training_hang m (job_nodes st) (worker_num st)
              (distribution_strategy st) \<noteq> None)
    \<longrightarrow> fst (should_early_stop m st)
          = (True, JobExitReason_PENDING_TIMEOUT, msg_pending_hang))
   \<and> (\<not> (is_all_reduce_type_job st
           \<and> is_all_initial_workers_node_check_failed m (job_nodes st) (worker_num st))
       \<and> get_pending_timeout_oom_recovered_node m (job_nodes st) = []
       \<and> ps_find_pending_node_caused_training_hang m (job_nodes st) (ps_num st)
              (distribution_strategy st) = None
       \<and> worker_find_pending_node_caused_training_hang m (job_nodes st) (worker_num st)
              (distribution_strategy st) = None
       \<and> is_all_reduce_type_job st \<and> is_training_hang_by_insufficient_worker m (job_nodes st)
    \<longrightarrow> fst (should_early_stop m st)
          = (True, JobExitReason_UNCOMPLETED_TIMEOUT, msg_insufficient_worker))
   \<and> (\<not> (is_all_reduce_type_job st
           \<and> is_all_initial_workers_node_check_failed m (job_nodes st) (worker_num st))
       \<and> get_pending_timeout_oom_recovered_node m (job_nodes st) = []
       \<and> ps_find_pending_node_caused_training_hang m (job_nodes st) (ps_num st)
              (distribution_strategy st) = None
       \<and> worker_find_pending_node_caused_training_hang m (job_nodes st) (worker_num st)
              (distribution_strategy st) = None
       \<and> \<not> (is_all_reduce_type_job st \<and> is_training_hang_by_insufficient_worker m (job_nodes st))
    \<longrightarrow> should_early_stop m st = ((False, JobExitReason_empty, ''''), st))"
  by (auto simp: should_early_stop_def Let_def split: option.splits)

theorem should_early_stop_order_witness:
  "should_early_stop example_node_managers example_manager
     = ((False, JobExitReason_empty, ''''), example_manager)
   \<and> fst (should_early_stop
        (example_node_managers\<lparr>worker_find_pending_node_caused_training_hang :=
           (\<lambda>jn n s. Some example_node)\<rparr>) example_manager)
     = (True, JobExitReason_PENDING_TIMEOUT, msg_pending_hang)
   \<and> fst (should_early_stop
        (example_node_managers\<lparr>is_all_initial_workers_node_check_failed := (\<lambda>jn n. True),
           is_training_hang_by_insufficient_worker := (\<lambda>jn. True)\<rparr>)
        (example_manager\<lparr>distribution_strategy := DistributionStrategy_ALLREDUCE\<rparr>))
     = (True, JobExitReason_NODE_CHECK_FAILED, msg_node_check_failed)"
  using should_early_stop_order [of example_manager example_node_managers]
    should_early_stop_order [of example_manager
      "example_node_managers\<lparr>worker_find_pending_node_caused_training_hang :=
           (\<lambda>jn n s. Some example_node)\<rparr>"]
    should_early_stop_order [of "example_manager\<lparr>distribution_strategy := DistributionStrategy_ALLREDUCE\<rparr>"
      "example_node_managers\<lparr>is_all_initial_workers_node_check_failed := (\<lambda>jn n. True),
           is_training_hang_by_insufficient_worker := (\<lambda>jn. True)\<rparr>"]
  by (simp add: example_node_managers_def example_manager_def is_all_reduce_type_job_def)

text \<open>
  C10. \<^verbatim>\<open>process_reported_node_event\<close> stores the event type as the reported status of
  the node the event names, when the store has it (under its own type and id). The job
  stage afterwards is stopping when the event type is \<^verbatim>\<open>SUCCEEDED_EXITED\<close> and is the
  stage before for every other event type. After a \<^verbatim>\<open>SUCCEEDED_EXITED\<close> report
  \<^verbatim>\<open>_should_relaunch\<close> returns false for every node and transition, and reports the
  job-stopping reason whenever the transition asks for a relaunch, relaunch is enabled
  and the node is relaunchable.
\<close>

theorem process_reported_node_event_effect:
  "(stored_under_own_key (job_nodes st)
      \<and> job_node (job_nodes st) (type_n (event_node ev)) (id_n (event_node ev)) = Some target
    \<longrightarrow> job_node (job_nodes (process_reported_node_event st ev))
            (type_n (event_node ev)) (id_n (event_node ev))
          = Some (target\<lparr>reported_status := Some (event_type ev)\<rparr>))
   \<and> job_stage (process_reported_node_event st ev)
       = (if event_type ev = NodeEventType_SUCCEEDED_EXITED then JobStage_JOB_STOPPING
          else job_stage st)
   \<and> (event_type ev = NodeEventType_SUCCEEDED_EXITED
    \<longrightarrow> fst (should_relaunch_node e (process_reported_node_event st ev) n flow) = False
        \<and> (should_relaunch flow \<and> enable_relaunch_node st \<and> relaunchable n
            \<longrightarrow> reports (snd (snd (should_relaunch_node e (process_reported_node_event st ev) n flow)))
                = reports st @ [Report_not_relaunch (name n) Msg_job_stopping]))"
proof (intro conjI impI)
  assume a: "stored_under_own_key (job_nodes st)
      \<and> job_node (job_nodes st) (type_n (event_node ev)) (id_n (event_node ev)) = Some target"
  then have "type_n target = type_n (event_node ev) \<and> id_n target = id_n (event_node ev)"
    by (blast dest: stored_under_own_keyD)
  with a show "job_node (job_nodes (process_reported_node_event st ev))
            (type_n (event_node ev)) (id_n (event_node ev))
          = Some (target\<lparr>reported_status := Some (event_type ev)\<rparr>)"
    by (simp add: process_reported_node_event_def Let_def job_node_update_job_node
        update_reported_status_def)
next
  show stage: "job_stage (process_reported_node_event st ev)
       = (if event_type ev = NodeEventType_SUCCEEDED_EXITED then JobStage_JOB_STOPPING
          else job_stage st)"
    by (simp add: process_reported_node_event_def Let_def split: option.splits)
  assume s: "event_type ev = NodeEventType_SUCCEEDED_EXITED"
  with stage have stop: "job_stage (process_reported_node_event st ev) = JobStage_JOB_STOPPING"
    by simp
  then show "fst (should_relaunch_node e (process_reported_node_event st ev) n flow) = False"
    by (rule should_relaunch_node_stopping)
  assume g: "should_relaunch flow \<and> enable_relaunch_node st \<and> relaunchable n"
  have f: "enable_relaunch_node (process_reported_node_event st ev) = enable_relaunch_node st
      \<and> reports (process_reported_node_event st ev) = reports st"
    by (simp add: process_reported_node_event_def Let_def split: option.splits)
  from stop g f
  show "reports (snd (snd (should_relaunch_node e (process_reported_node_event st ev) n flow)))
                = reports st @ [Report_not_relaunch (name n) Msg_job_stopping]"
    by (simp add: should_relaunch_node_def recheck_should_relaunch_def)
qed

theorem process_reported_node_event_effect_witness:
  "stored_under_own_key (job_nodes example_manager)
   \<and> job_node (job_nodes example_manager) NodeType_WORKER 4 = Some example_node
   \<and> job_node (job_nodes (process_reported_node_event example_manager
        \<lparr>event_type = NodeEventType_SUCCEEDED_EXITED, event_node = example_node\<rparr>))
       NodeType_WORKER 4
      = Some (example_node\<lparr>reported_status := Some NodeEventType_SUCCEEDED_EXITED\<rparr>)
   \<and> job_stage (process_reported_node_event example_manager
        \<lparr>event_type = NodeEventType_SUCCEEDED_EXITED, event_node = example_node\<rparr>)
      = JobStage_JOB_STOPPING
   \<and> job_stage (process_reported_node_event example_manager
        \<lparr>event_type = NodeEventType_NODE_CHECK_FAILED, event_node = example_node\<rparr>)
      = JobStage_JOB_RUNNING
   \<and> fst (should_relaunch_node example_env (process_reported_node_event example_manager
        \<lparr>event_type = NodeEventType_SUCCEEDED_EXITED, event_node = example_node\<rparr>)
        (example_node\<lparr>exit_reason := NodeExitReason_KILLED\<rparr>) example_flow) = False"
  using process_reported_node_event_effect [where st = example_manager
      and ev = "\<lparr>event_type = NodeEventType_SUCCEEDED_EXITED, event_node = example_node\<rparr>"
      and target = example_node and e = example_env
      and n = "example_node\<lparr>exit_reason := NodeExitReason_KILLED\<rparr>" and flow = example_flow]
    process_reported_node_event_effect [where st = example_manager
      and ev = "\<lparr>event_type = NodeEventType_NODE_CHECK_FAILED, event_node = example_node\<rparr>"]
  by (simp add: example_manager_def example_node_def stored_under_own_key_def job_node_def)

section \<open>Nodes that were killed\<close>

lemma should_relaunch_node_killed:
  assumes "exit_reason n = NodeExitReason_KILLED"
  shows "should_relaunch_node e st n flow
       = (if should_relaunch flow \<and> enable_relaunch_node st \<and> relaunchable n
             \<and> job_stage st \<noteq> JobStage_JOB_STOPPING
          then (True, n\<lparr>relaunch_count := relaunch_count n + 1\<rparr>, st)
          else (False, n,
                if should_relaunch flow \<and> enable_relaunch_node st \<and> relaunchable n
                then st\<lparr>reports := reports st @ [Report_not_relaunch (name n) Msg_job_stopping]\<rparr>
                else st))"
  using assms
  by (auto simp: should_relaunch_node_def recheck_should_relaunch_def Let_def)

lemma relaunch_served:
  assumes "type_n n \<in> set [NodeType_WORKER, NodeType_PS, NodeType_EVALUATOR, NodeType_CHIEF,
      NodeType_MASTER]"
  shows "scaled (state_of (relaunch e st n))
       = scaled st
         @ [(fst (relaunch_node e (if type_n n = NodeType_MASTER then NodeType_CHIEF else type_n n)
                    n (remove_exited_node st) (job_nodes st)))
            \<lparr>ps_addrs :=
               ps_addrs (fst (relaunch_node e
                    (if type_n n = NodeType_MASTER then NodeType_CHIEF else type_n n)
                    n (remove_exited_node st) (job_nodes st)))
               @ get_ps_addrs e (snd (relaunch_node e
                    (if type_n n = NodeType_MASTER then NodeType_CHIEF else type_n n)
                    n (remove_exited_node st) (job_nodes st))),
             remove_nodes :=
               remove_nodes (fst (relaunch_node e
                    (if type_n n = NodeType_MASTER then NodeType_CHIEF else type_n n)
                    n (remove_exited_node st) (job_nodes st)))
               @ (if remove_exited_node st then [n\<lparr>relaunchable := False\<rparr>] else [])\<rparr>]
    \<and> job_nodes (state_of (relaunch e st n))
       = update_job_node (n\<lparr>relaunchable := False\<rparr>)
           (snd (relaunch_node e (if type_n n = NodeType_MASTER then NodeType_CHIEF else type_n n)
                    n (remove_exited_node st) (job_nodes st)))
    \<and> (\<exists>st'. relaunch e st n = Done st')"
  using assms by (simp add: relaunch_def Let_def case_prod_beta)

lemma relaunch_unserved:
  assumes "type_n n \<notin> set [NodeType_WORKER, NodeType_PS, NodeType_EVALUATOR, NodeType_CHIEF,
      NodeType_MASTER]"
  shows "relaunch e st n = Raise UnboundLocalError st"
  using assms by (simp add: relaunch_def)

lemma update_info_relaunchable:
  "relaunchable (update_info cur evn) = relaunchable cur"
  by (simp add: update_info_def Let_def split: option.splits)

lemma process_known_event_killed:
  assumes "event_type ev \<noteq> NodeEventType_exit"
    and "get_node_state_flow e (status cur) (event_type ev) (status (event_node ev)) = Some flow"
    and "from_status flow \<noteq> NodeStatus_SUCCEEDED"
    and "exit_reason (event_node ev) = NodeExitReason_KILLED"
    and cur2: "cur2 = (update_info cur (event_node ev))
                 \<lparr>status := status (event_node ev), exit_reason := NodeExitReason_KILLED\<rparr>"
    and jn2: "jn2 = update_job_node cur2 (update_job_node (update_info cur (event_node ev)) (job_nodes st))"
  shows "process_known_event e st ev cur
     = (if should_relaunch flow \<and> enable_relaunch_node st \<and> relaunchable cur
           \<and> job_stage st \<noteq> JobStage_JOB_STOPPING
        then relaunch e
               ((if wait_pending_relaunch st
                 then (process_node_events (st\<lparr>job_nodes := jn2\<rparr>) flow cur2)
                        \<lparr>pending_relaunch_count := pending_relaunch_count st + 1\<rparr>
                 else process_node_events (st\<lparr>job_nodes := jn2\<rparr>) flow cur2)
                \<lparr>reports := reports st
                   @ [Report_status_change (cur2\<lparr>relaunch_count := relaunch_count cur2 + 1\<rparr>)
                        (status cur) (to_status flow)]\<rparr>)
               (cur2\<lparr>relaunch_count := relaunch_count cur2 + 1\<rparr>)
        else Done
               ((process_node_events (st\<lparr>job_nodes := jn2\<rparr>) flow cur2)
                \<lparr>reports := reports st
                   @ (if should_relaunch flow \<and> enable_relaunch_node st \<and> relaunchable cur
                      then [Report_not_relaunch (name cur2) Msg_job_stopping] else [])
                   @ [Report_status_change cur2 (status cur) (to_status flow)]\<rparr>))"
proof -
  define st3 where "st3 = process_node_events (st\<lparr>job_nodes := jn2\<rparr>) flow cur2"
  have k: "status (update_info cur (event_node ev)) = status cur"
    using update_info_keeps [of cur "event_node ev"] by simp
  have c2: "exit_reason cur2 = NodeExitReason_KILLED" "relaunchable cur2 = relaunchable cur"
    by (simp_all add: cur2 update_info_relaunchable)
  have s3: "enable_relaunch_node st3 = enable_relaunch_node st" "job_stage st3 = job_stage st"
      "reports st3 = reports st" "wait_pending_relaunch st3 = wait_pending_relaunch st"
    by (simp_all add: st3_def process_node_events_frame)
  have p3: "pending_relaunch_count st3 = pending_relaunch_count st"
    by (simp add: st3_def process_node_events_def)
  note v = should_relaunch_node_killed [OF c2(1), of e st3 flow]
  have unfold: "process_known_event e st ev cur
      = (let r = should_relaunch_node e st3 cur2 flow;
             st5 = (if fst r \<and> wait_pending_relaunch (snd (snd r))
                    then (snd (snd r))\<lparr>pending_relaunch_count := pending_relaunch_count (snd (snd r)) + 1\<rparr>
                    else snd (snd r));
             st6 = st5\<lparr>reports := reports st5
                     @ [Report_status_change (fst (snd r)) (status cur) (to_status flow)]\<rparr>
         in if fst r then relaunch e st6 (fst (snd r)) else Done st6)"
    using assms(1,2,3,4) k
    by (simp add: process_known_event_def Let_def case_prod_beta st3_def jn2 cur2
        set_exit_reason_def update_status_def)
  show ?thesis
    unfolding unfold v Let_def
    using c2(2) s3 p3 by (auto simp: st3_def [symmetric])
qed

text \<open>
  A running worker that fails with the exit reason \<^verbatim>\<open>killed\<close>: \<^verbatim>\<open>_should_relaunch\<close>
  returns true and \<^verbatim>\<open>_process_event\<close> passes a plan that launches its replacement.
\<close>

theorem killed_worker_relaunch_counterexample:
  "exit_reason (example_node\<lparr>status := NodeStatus_FAILED, exit_reason := NodeExitReason_KILLED\<rparr>)
      = NodeExitReason_KILLED
   \<and> from_status example_flow = NodeStatus_RUNNING \<and> to_status example_flow = NodeStatus_FAILED
   \<and> fst (should_relaunch_node example_env example_manager
        (example_node\<lparr>status := NodeStatus_FAILED, exit_reason := NodeExitReason_KILLED\<rparr>)
        example_flow) = True
   \<and> map launch_nodes (scaled (state_of (process_event example_env example_manager
        \<lparr>event_type = NodeEventType_MODIFIED,
         event_node = example_node\<lparr>status := NodeStatus_FAILED, exit_reason := NodeExitReason_KILLED\<rparr>\<rparr>)))
      = [[example_node\<lparr>id_n := 5, status := NodeStatus_INITIAL,
            exit_reason := NodeExitReason_KILLED, relaunch_count := 1\<rparr>]]"
  by (simp add: example_defs example_state_flow_def process_event_def process_known_event_def
      is_positive_exit_def get_pod_unique_labels_def running_pod_exists_def update_info_def Let_def
      update_job_node_def update_status_def set_exit_reason_def process_node_events_def
      should_relaunch_node_def recheck_should_relaunch_def relaunch_def ScalePlan_def
      example_relaunch_node_def next_node_id_def)

text \<open>
  C7 (amended). For a node whose exit reason is \<^verbatim>\<open>killed\<close>, \<^verbatim>\<open>_should_relaunch\<close>
  returns true exactly when the transition asks for a relaunch, relaunch is enabled, the
  node is relaunchable and the job is not stopping, whatever its relaunch count; the
  count goes up by one when it returns true and stays when it returns false. When
  \<^verbatim>\<open>_process_event\<close> gets an added or modified event that reports a stored node failed
  with the exit reason \<^verbatim>\<open>killed\<close>, and the table has a row for it that does not start
  from succeeded, then under the same four conditions, for a node of a type that a node
  manager serves, it passes exactly one plan to the scaler: the plan that the node
  manager built for the node with its count raised, with the parameter-server addresses
  appended and, when exited nodes are removed, the node at the end of the nodes to
  remove; the node is stored as no longer relaunchable in the store the node manager
  left. For a type no manager serves the call raises and no plan is passed. When one of
  the four conditions fails no plan is passed and the node is stored failed.
\<close>

theorem should_relaunch_killed:
  assumes "exit_reason n = NodeExitReason_KILLED"
  shows "fst (should_relaunch_node e st n flow)
       = (should_relaunch flow \<and> enable_relaunch_node st \<and> relaunchable n
          \<and> job_stage st \<noteq> JobStage_JOB_STOPPING)
    \<and> relaunch_count (fst (snd (should_relaunch_node e st n flow)))
       = (if should_relaunch flow \<and> enable_relaunch_node st \<and> relaunchable n
             \<and> job_stage st \<noteq> JobStage_JOB_STOPPING
          then relaunch_count n + 1 else relaunch_count n)
    \<and> (job_node (job_nodes st) (type_n n) (id_n n) = Some cur
        \<and> status n = NodeStatus_FAILED
        \<and> t \<in> set [NodeEventType_ADDED, NodeEventType_MODIFIED]
        \<and> get_node_state_flow e (status cur) t NodeStatus_FAILED = Some flow
        \<and> from_status flow \<noteq> NodeStatus_SUCCEEDED
      \<longrightarrow> (let cur2 = (update_info cur n)
                         \<lparr>status := NodeStatus_FAILED, exit_reason := NodeExitReason_KILLED\<rparr>;
                jn2 = update_job_node cur2 (update_job_node (update_info cur n) (job_nodes st));
                new = cur2\<lparr>relaunch_count := relaunch_count cur2 + 1\<rparr>;
                built = relaunch_node e
                          (if type_n cur = NodeType_MASTER then NodeType_CHIEF else type_n cur)
                          new (remove_exited_node st) jn2;
                out = process_event e st \<lparr>event_type = t, event_node = n\<rparr>
            in if should_relaunch flow \<and> enable_relaunch_node st \<and> relaunchable cur
                  \<and> job_stage st \<noteq> JobStage_JOB_STOPPING
               then
                 (if type_n cur \<in> set [NodeType_WORKER, NodeType_PS, NodeType_EVALUATOR,
                                       NodeType_CHIEF, NodeType_MASTER]
                  then (\<exists>st'. out = Done st')
                     \<and> scaled (state_of out)
                         = scaled st
                           @ [(fst built)
                              \<lparr>ps_addrs := ps_addrs (fst built) @ get_ps_addrs e (snd built),
                               remove_nodes := remove_nodes (fst built)
                                 @ (if remove_exited_node st then [new\<lparr>relaunchable := False\<rparr>]
                                    else [])\<rparr>]
                     \<and> job_nodes (state_of out)
                         = update_job_node (new\<lparr>relaunchable := False\<rparr>) (snd built)
                  else (\<exists>st'. out = Raise UnboundLocalError st')
                     \<and> scaled (state_of out) = scaled st)
               else (\<exists>st'. out = Done st')
                  \<and> scaled (state_of out) = scaled st
                  \<and> job_nodes (state_of out) = jn2))"
proof (intro conjI impI)
  show "fst (should_relaunch_node e st n flow)
       = (should_relaunch flow \<and> enable_relaunch_node st \<and> relaunchable n
          \<and> job_stage st \<noteq> JobStage_JOB_STOPPING)"
    using assms by (simp add: should_relaunch_node_killed)
  then show "relaunch_count (fst (snd (should_relaunch_node e st n flow)))
       = (if should_relaunch flow \<and> enable_relaunch_node st \<and> relaunchable n
             \<and> job_stage st \<noteq> JobStage_JOB_STOPPING
          then relaunch_count n + 1 else relaunch_count n)"
    by (simp add: should_relaunch_node_count)
next
  let ?ev = "\<lparr>event_type = t, event_node = n\<rparr>"
  assume a: "job_node (job_nodes st) (type_n n) (id_n n) = Some cur
        \<and> status n = NodeStatus_FAILED
        \<and> t \<in> set [NodeEventType_ADDED, NodeEventType_MODIFIED]
        \<and> get_node_state_flow e (status cur) t NodeStatus_FAILED = Some flow
        \<and> from_status flow \<noteq> NodeStatus_SUCCEEDED"
  define cur2 where "cur2 = (update_info cur n)
      \<lparr>status := NodeStatus_FAILED, exit_reason := NodeExitReason_KILLED\<rparr>"
  define jn2 where "jn2 = update_job_node cur2 (update_job_node (update_info cur n) (job_nodes st))"
  define new where "new = cur2\<lparr>relaunch_count := relaunch_count cur2 + 1\<rparr>"
  define st6 where "st6 =
      (if wait_pending_relaunch st
       then (process_node_events (st\<lparr>job_nodes := jn2\<rparr>) flow cur2)
              \<lparr>pending_relaunch_count := pending_relaunch_count st + 1\<rparr>
       else process_node_events (st\<lparr>job_nodes := jn2\<rparr>) flow cur2)
      \<lparr>reports := reports st @ [Report_status_change new (status cur) (to_status flow)]\<rparr>"
  from a obtain nodes where n: "map_of (job_nodes st) (type_n n) = Some nodes"
      and c: "map_of nodes (id_n n) = Some cur"
    by (auto simp: job_node_def split: option.splits)
  from a have t: "t \<noteq> NodeEventType_DELETED" "t \<noteq> NodeEventType_exit" by auto
  with a n c have pe: "process_event e st ?ev = process_known_event e st ?ev cur"
    by (simp add: process_event_def Let_def)
  have h: "event_type ?ev \<noteq> NodeEventType_exit"
      "get_node_state_flow e (status cur) (event_type ?ev) (status (event_node ?ev)) = Some flow"
      "from_status flow \<noteq> NodeStatus_SUCCEEDED"
      "exit_reason (event_node ?ev) = NodeExitReason_KILLED"
      "cur2 = (update_info cur (event_node ?ev))
                 \<lparr>status := status (event_node ?ev), exit_reason := NodeExitReason_KILLED\<rparr>"
      "jn2 = update_job_node cur2 (update_job_node (update_info cur (event_node ?ev)) (job_nodes st))"
    using a t assms by (simp_all add: cur2_def jn2_def)
  note pk = process_known_event_killed [OF h, unfolded new_def [symmetric] st6_def [symmetric]]
  have ty: "type_n new = type_n cur"
    using update_info_keeps [of cur n] by (simp add: new_def cur2_def)
  have s6: "job_nodes st6 = jn2" "remove_exited_node st6 = remove_exited_node st"
      "scaled st6 = scaled st"
    by (simp_all add: st6_def process_node_events_frame)
  have nf: "job_nodes (process_node_events (st\<lparr>job_nodes := jn2\<rparr>) flow cur2) = jn2"
      "scaled (process_node_events (st\<lparr>job_nodes := jn2\<rparr>) flow cur2) = scaled st"
    by (simp_all add: process_node_events_frame)
  show "let cur2 = (update_info cur n)
                         \<lparr>status := NodeStatus_FAILED, exit_reason := NodeExitReason_KILLED\<rparr>;
                jn2 = update_job_node cur2 (update_job_node (update_info cur n) (job_nodes st));
                new = cur2\<lparr>relaunch_count := relaunch_count cur2 + 1\<rparr>;
                built = relaunch_node e
                          (if type_n cur = NodeType_MASTER then NodeType_CHIEF else type_n cur)
                          new (remove_exited_node st) jn2;
                out = process_event e st \<lparr>event_type = t, event_node = n\<rparr>
            in if should_relaunch flow \<and> enable_relaunch_node st \<and> relaunchable cur
                  \<and> job_stage st \<noteq> JobStage_JOB_STOPPING
               then
                 (if type_n cur \<in> set [NodeType_WORKER, NodeType_PS, NodeType_EVALUATOR,
                                       NodeType_CHIEF, NodeType_MASTER]
                  then (\<exists>st'. out = Done st')
                     \<and> scaled (state_of out)
                         = scaled st
                           @ [(fst built)
                              \<lparr>ps_addrs := ps_addrs (fst built) @ get_ps_addrs e (snd built),
                               remove_nodes := remove_nodes (fst built)
                                 @ (if remove_exited_node st then [new\<lparr>relaunchable := False\<rparr>]
                                    else [])\<rparr>]
                     \<and> job_nodes (state_of out)
                         = update_job_node (new\<lparr>relaunchable := False\<rparr>) (snd built)
                  else (\<exists>st'. out = Raise UnboundLocalError st')
                     \<and> scaled (state_of out) = scaled st)
               else (\<exists>st'. out = Done st')
                  \<and> scaled (state_of out) = scaled st
                  \<and> job_nodes (state_of out) = jn2"
    unfolding Let_def cur2_def [symmetric] jn2_def [symmetric] new_def [symmetric]
  proof (cases "should_relaunch flow \<and> enable_relaunch_node st \<and> relaunchable cur
                  \<and> job_stage st \<noteq> JobStage_JOB_STOPPING")
    case False
    with pe pk nf show "if should_relaunch flow \<and> enable_relaunch_node st \<and> relaunchable cur
                  \<and> job_stage st \<noteq> JobStage_JOB_STOPPING
               then
                 (if type_n cur \<in> set [NodeType_WORKER, NodeType_PS, NodeType_EVALUATOR,
                                       NodeType_CHIEF, NodeType_MASTER]
                  then (\<exists>st'. process_event e st ?ev = Done st')
                     \<and> scaled (state_of (process_event e st ?ev))
                         = scaled st
                           @ [(fst (relaunch_node e
                          (if type_n cur = NodeType_MASTER then NodeType_CHIEF else type_n cur)
                          new (remove_exited_node st) jn2))
                              \<lparr>ps_addrs := ps_addrs (fst (relaunch_node e
                          (if type_n cur = NodeType_MASTER then NodeType_CHIEF else type_n cur)
                          new (remove_exited_node st) jn2)) @ get_ps_addrs e (snd (relaunch_node e
                          (if type_n cur = NodeType_MASTER then NodeType_CHIEF else type_n cur)
                          new (remove_exited_node st) jn2)),
                               remove_nodes := remove_nodes (fst (relaunch_node e
                          (if type_n cur = NodeType_MASTER then NodeType_CHIEF else type_n cur)
                          new (remove_exited_node st) jn2))
                                 @ (if remove_exited_node st then [new\<lparr>relaunchable := False\<rparr>]
                                    else [])\<rparr>]
                     \<and> job_nodes (state_of (process_event e st ?ev))
                         = update_job_node (new\<lparr>relaunchable := False\<rparr>) (snd (relaunch_node e
                          (if type_n cur = NodeType_MASTER then NodeType_CHIEF else type_n cur)
                          new (remove_exited_node st) jn2))
                  else (\<exists>st'. process_event e st ?ev = Raise UnboundLocalError st')
                     \<and> scaled (state_of (process_event e st ?ev)) = scaled st)
               else (\<exists>st'. process_event e st ?ev = Done st')
                  \<and> scaled (state_of (process_event e st ?ev)) = scaled st
                  \<and> job_nodes (state_of (process_event e st ?ev)) = jn2"
      by auto
  next
    case True
    with pe pk have r: "process_event e st ?ev = relaunch e st6 new" by simp
    show "if should_relaunch flow \<and> enable_relaunch_node st \<and> relaunchable cur
                  \<and> job_stage st \<noteq> JobStage_JOB_STOPPING
               then
                 (if type_n cur \<in> set [NodeType_WORKER, NodeType_PS, NodeType_EVALUATOR,
                                       NodeType_CHIEF, NodeType_MASTER]
                  then (\<exists>st'. process_event e st ?ev = Done st')
                     \<and> scaled (state_of (process_event e st ?ev))
                         = scaled st
                           @ [(fst (relaunch_node e
                          (if type_n cur = NodeType_MASTER then NodeType_CHIEF else type_n cur)
                          new (remove_exited_node st) jn2))
                              \<lparr>ps_addrs := ps_addrs (fst (relaunch_node e
                          (if type_n cur = NodeType_MASTER then NodeType_CHIEF else type_n cur)
                          new (remove_exited_node st) jn2)) @ get_ps_addrs e (snd (relaunch_node e
                          (if type_n cur = NodeType_MASTER then NodeType_CHIEF else type_n cur)
                          new (remove_exited_node st) jn2)),
                               remove_nodes := remove_nodes (fst (relaunch_node e
                          (if type_n cur = NodeType_MASTER then NodeType_CHIEF else type_n cur)
                          new (remove_exited_node st) jn2))
                                 @ (if remove_exited_node st then [new\<lparr>relaunchable := False\<rparr>]
                                    else [])\<rparr>]
                     \<and> job_nodes (state_of (process_event e st ?ev))
                         = update_job_node (new\<lparr>relaunchable := False\<rparr>) (snd (relaunch_node e
                          (if type_n cur = NodeType_MASTER then NodeType_CHIEF else type_n cur)
                          new (remove_exited_node st) jn2))
                  else (\<exists>st'. process_event e st ?ev = Raise UnboundLocalError st')
                     \<and> scaled (state_of (process_event e st ?ev)) = scaled st)
               else (\<exists>st'. process_event e st ?ev = Done st')
                  \<and> scaled (state_of (process_event e st ?ev)) = scaled st
                  \<and> job_nodes (state_of (process_event e st ?ev)) = jn2"
    proof (cases "type_n cur \<in> set [NodeType_WORKER, NodeType_PS, NodeType_EVALUATOR,
                                       NodeType_CHIEF, NodeType_MASTER]")
      case served: True
      then have "type_n new \<in> set [NodeType_WORKER, NodeType_PS, NodeType_EVALUATOR,
          NodeType_CHIEF, NodeType_MASTER]"
        using ty by simp
      from relaunch_served [OF this, of e st6] True served r ty s6 show ?thesis
        by simp
    next
      case unserved: False
      then have "type_n new \<notin> set [NodeType_WORKER, NodeType_PS, NodeType_EVALUATOR,
          NodeType_CHIEF, NodeType_MASTER]"
        using ty by simp
      from relaunch_unserved [OF this, of e st6] True unserved r s6 show ?thesis
        by simp
    qed
  qed
qed

theorem should_relaunch_killed_witness:
  "exit_reason (example_node\<lparr>status := NodeStatus_FAILED, exit_reason := NodeExitReason_KILLED,
       relaunch_count := 3\<rparr>) = NodeExitReason_KILLED
   \<and> fst (should_relaunch_node example_env example_manager
        (example_node\<lparr>status := NodeStatus_FAILED, exit_reason := NodeExitReason_KILLED,
           relaunch_count := 3\<rparr>) example_flow)
   \<and> \<not> fst (should_relaunch_node example_env (example_manager\<lparr>job_stage := JobStage_JOB_STOPPING\<rparr>)
        (example_node\<lparr>status := NodeStatus_FAILED, exit_reason := NodeExitReason_KILLED,
           relaunch_count := 3\<rparr>) example_flow)
   \<and> map launch_nodes (scaled (state_of (process_event example_env example_manager
        \<lparr>event_type = NodeEventType_MODIFIED,
         event_node = example_node\<lparr>status := NodeStatus_FAILED,
           exit_reason := NodeExitReason_KILLED, relaunch_count := 3\<rparr>\<rparr>)))
      = [[example_node\<lparr>id_n := 5, status := NodeStatus_INITIAL,
            exit_reason := NodeExitReason_KILLED, relaunch_count := 4\<rparr>]]
   \<and> map remove_nodes (scaled (state_of (process_event example_env example_manager
        \<lparr>event_type = NodeEventType_MODIFIED,
         event_node = example_node\<lparr>status := NodeStatus_FAILED,
           exit_reason := NodeExitReason_KILLED, relaunch_count := 3\<rparr>\<rparr>)))
      = [[example_node\<lparr>status := NodeStatus_FAILED, exit_reason := NodeExitReason_KILLED,
            relaunch_count := 4, relaunchable := False\<rparr>]]
   \<and> scaled (state_of (process_event example_env
        (example_manager\<lparr>job_stage := JobStage_JOB_STOPPING\<rparr>)
        \<lparr>event_type = NodeEventType_MODIFIED,
         event_node = example_node\<lparr>status := NodeStatus_FAILED,
           exit_reason := NodeExitReason_KILLED, relaunch_count := 3\<rparr>\<rparr>)) = []"
  using should_relaunch_killed [where
      n = "example_node\<lparr>status := NodeStatus_FAILED, exit_reason := NodeExitReason_KILLED,
           relaunch_count := 3\<rparr>"
      and e = example_env and st = example_manager and flow = example_flow
      and cur = example_node and t = NodeEventType_MODIFIED]
    should_relaunch_killed [where
      n = "example_node\<lparr>status := NodeStatus_FAILED, exit_reason := NodeExitReason_KILLED,
           relaunch_count := 3\<rparr>"
      and e = example_env and st = "example_manager\<lparr>job_stage := JobStage_JOB_STOPPING\<rparr>"
      and flow = example_flow and cur = example_node and t = NodeEventType_MODIFIED]
  by (simp add: example_defs example_state_flow_def job_node_def update_info_def Let_def
      update_job_node_def example_relaunch_node_def next_node_id_def ScalePlan_def)

section \<open>The relaunch count over the events\<close>

lemma set_update_subset:
  "set (AList.update k v al) \<subseteq> insert (k, v) (set al)"
  by (induction al) auto

lemma stored_under_own_key_iff:
  "stored_under_own_key jn
     \<longleftrightarrow> (\<forall>t nodes i m. (t, nodes) \<in> set jn \<longrightarrow> (i, m) \<in> set nodes \<longrightarrow> type_n m = t \<and> id_n m = i)"
  unfolding stored_under_own_key_def list_all_iff by fastforce

lemma stored_under_own_key_update_job_node:
  assumes "stored_under_own_key jn"
  shows "stored_under_own_key (update_job_node n jn)"
proof -
  define old where "old = (case map_of jn (type_n n) of None \<Rightarrow> [] | Some nodes \<Rightarrow> nodes)"
  have old: "(i, m) \<in> set old \<Longrightarrow> type_n m = type_n n \<and> id_n m = i" for i m
  proof (cases "map_of jn (type_n n)")
    case None
    assume "(i, m) \<in> set old"
    with None show ?thesis by (simp add: old_def)
  next
    case (Some nodes)
    assume a: "(i, m) \<in> set old"
    from Some have "(type_n n, nodes) \<in> set jn" by (rule map_of_SomeD)
    with assms Some a show ?thesis
      by (simp add: stored_under_own_key_iff old_def)
  qed
  have new: "(i, m) \<in> set (AList.update (id_n n) n old) \<Longrightarrow> type_n m = type_n n \<and> id_n m = i" for i m
  proof -
    assume "(i, m) \<in> set (AList.update (id_n n) n old)"
    with set_update_subset [of "id_n n" n old] have "(i, m) = (id_n n, n) \<or> (i, m) \<in> set old"
      by auto
    with old show ?thesis by auto
  qed
  have "type_n m = t \<and> id_n m = i"
    if "(t, nodes) \<in> set (AList.update (type_n n) (AList.update (id_n n) n old) jn)"
      and "(i, m) \<in> set nodes" for t nodes i m
  proof -
    from that(1) set_update_subset [of "type_n n" "AList.update (id_n n) n old" jn]
    have "(t, nodes) = (type_n n, AList.update (id_n n) n old) \<or> (t, nodes) \<in> set jn" by auto
    then show ?thesis
    proof
      assume "(t, nodes) = (type_n n, AList.update (id_n n) n old)"
      with new that(2) show ?thesis by simp
    next
      assume "(t, nodes) \<in> set jn"
      with assms that(2) show ?thesis by (simp add: stored_under_own_key_iff)
    qed
  qed
  then show ?thesis
    unfolding stored_under_own_key_iff update_job_node_def old_def by blast
qed

lemma should_relaunch_node_id:
  "id_n (fst (snd (should_relaunch_node e st n flow))) = id_n n"
  by (simp add: should_relaunch_node_def recheck_should_relaunch_def Let_def)

lemma should_relaunch_node_type:
  "type_n (fst (snd (should_relaunch_node e st n flow))) = type_n n"
  by (simp add: should_relaunch_node_def recheck_should_relaunch_def Let_def)

lemma relaunch_store:
  "job_nodes (state_of (relaunch e s n))
     = (if type_n n \<in> set [NodeType_WORKER, NodeType_PS, NodeType_EVALUATOR, NodeType_CHIEF,
                           NodeType_MASTER]
        then update_job_node (n\<lparr>relaunchable := False\<rparr>)
               (snd (relaunch_node e (if type_n n = NodeType_MASTER then NodeType_CHIEF else type_n n)
                      n (remove_exited_node s) (job_nodes s)))
        else job_nodes s)"
  by (simp add: relaunch_def Let_def case_prod_beta)

lemma process_known_event_store:
  "job_nodes (state_of (process_known_event e st ev cur))
   = (let cur1 = update_info cur (event_node ev);
          jn1 = update_job_node cur1 (job_nodes st);
          cur2 = cur1\<lparr>status := status (event_node ev), exit_reason := exit_reason (event_node ev)\<rparr>;
          jn2 = update_job_node cur2 jn1
      in if event_type ev = NodeEventType_exit then jn1
         else case get_node_state_flow e (status cur) (event_type ev) (status (event_node ev)) of
                None \<Rightarrow> jn1
              | Some flow \<Rightarrow>
                  if from_status flow = NodeStatus_SUCCEEDED then jn1
                  else
                    (let r = should_relaunch_node e
                               (process_node_events (st\<lparr>job_nodes := jn2\<rparr>) flow cur2) cur2 flow
                     in if fst r then job_nodes (state_of (relaunch e
                             (st\<lparr>job_nodes := jn2, remove_exited_node := remove_exited_node st\<rparr>)
                             (fst (snd r))))
                        else jn2))"
proof -
  have k: "status (update_info cur (event_node ev)) = status cur"
    using update_info_keeps [of cur "event_node ev"] by simp
  show ?thesis
    by (simp add: process_known_event_def Let_def case_prod_beta close_job_def k
        set_exit_reason_def update_status_def relaunch_store should_relaunch_node_frame
        process_node_events_frame split: option.splits)
qed

lemma update_info_count:
  "relaunch_count (update_info cur evn) = max (relaunch_count cur) (relaunch_count evn)
   \<and> max_relaunch_count (update_info cur evn) = max_relaunch_count cur"
  by (simp add: update_info_def Let_def split: option.splits)

lemma process_known_event_count_step:
  assumes keeps: "\<forall>mgr n b jn t i m. job_node jn t i = Some m
        \<longrightarrow> job_node (snd (relaunch_node e mgr n b jn)) t i = Some m"
    and own: "\<forall>mgr n b jn. stored_under_own_key jn
        \<longrightarrow> stored_under_own_key (snd (relaunch_node e mgr n b jn))"
    and st: "stored_under_own_key (job_nodes st)"
  shows "stored_under_own_key (job_nodes (state_of (process_known_event e st ev cur)))
    \<and> (\<exists>x. job_node (job_nodes (state_of (process_known_event e st ev cur))) (type_n cur) (id_n cur)
             = Some x
          \<and> max_relaunch_count x = max_relaunch_count cur
          \<and> relaunch_count cur \<le> relaunch_count x
          \<and> relaunch_count x \<le> max (relaunch_count cur) (relaunch_count (event_node ev)) + 1
          \<and> (relaunch_count x = max (relaunch_count cur) (relaunch_count (event_node ev)) + 1
               \<longrightarrow> exit_reason (event_node ev) = NodeExitReason_KILLED
                   \<or> max (relaunch_count cur) (relaunch_count (event_node ev))
                       < max_relaunch_count cur))
    \<and> (\<forall>t i m. \<not> (t = type_n cur \<and> i = id_n cur) \<longrightarrow> job_node (job_nodes st) t i = Some m
          \<longrightarrow> job_node (job_nodes (state_of (process_known_event e st ev cur))) t i = Some m)"
proof -
  define cur1 where "cur1 = update_info cur (event_node ev)"
  define jn1 where "jn1 = update_job_node cur1 (job_nodes st)"
  define cur2 where "cur2 = cur1\<lparr>status := status (event_node ev),
      exit_reason := exit_reason (event_node ev)\<rparr>"
  define jn2 where "jn2 = update_job_node cur2 jn1"
  define c where "c = max (relaunch_count cur) (relaunch_count (event_node ev))"
  define ok where "ok = (\<lambda>x::node. type_n x = type_n cur \<and> id_n x = id_n cur
      \<and> max_relaunch_count x = max_relaunch_count cur
      \<and> relaunch_count cur \<le> relaunch_count x \<and> relaunch_count x \<le> c + 1
      \<and> (relaunch_count x = c + 1
           \<longrightarrow> exit_reason (event_node ev) = NodeExitReason_KILLED \<or> c < max_relaunch_count cur))"
  define good where "good = (\<lambda>jn::job_nodes. stored_under_own_key jn
      \<and> (\<forall>t i m. \<not> (t = type_n cur \<and> i = id_n cur) \<longrightarrow> job_node (job_nodes st) t i = Some m
            \<longrightarrow> job_node jn t i = Some m))"
  have k1: "type_n cur1 = type_n cur" "id_n cur1 = id_n cur"
      "relaunch_count cur1 = c" "max_relaunch_count cur1 = max_relaunch_count cur"
    using update_info_keeps [of cur "event_node ev"] update_info_count [of cur "event_node ev"]
    by (simp_all add: cur1_def c_def)
  have k2: "type_n cur2 = type_n cur" "id_n cur2 = id_n cur"
      "relaunch_count cur2 = c" "max_relaunch_count cur2 = max_relaunch_count cur"
      "exit_reason cur2 = exit_reason (event_node ev)"
    using k1 by (simp_all add: cur2_def)
  have ok1: "ok cur1" using k1 by (simp add: ok_def c_def)
  have ok2: "ok cur2" using k2 by (simp add: ok_def c_def)
  have good0: "good (job_nodes st)" using st by (simp add: good_def)
  have good_upd: "good (update_job_node x jn)" if "good jn" and "ok x" for x jn
    using that by (simp add: good_def ok_def stored_under_own_key_update_job_node
        job_node_update_job_node)
  have at_upd: "job_node (update_job_node x jn) (type_n cur) (id_n cur) = Some x" if "ok x" for x jn
    using that by (simp add: ok_def job_node_update_job_node)
  have good_rel: "good (snd (relaunch_node e mgr n b jn))" if "good jn" for mgr n b jn
    using that keeps own unfolding good_def by blast
  have g1: "good jn1" unfolding jn1_def using good0 ok1 by (rule good_upd)
  have g2: "good jn2" unfolding jn2_def using g1 ok2 by (rule good_upd)
  have final: "\<exists>x jn. ok x \<and> good jn
      \<and> job_nodes (state_of (process_known_event e st ev cur)) = update_job_node x jn"
  proof (cases "event_type ev = NodeEventType_exit
      \<or> (case get_node_state_flow e (status cur) (event_type ev) (status (event_node ev)) of
            None \<Rightarrow> True | Some flow \<Rightarrow> from_status flow = NodeStatus_SUCCEEDED)")
    case True
    then have "job_nodes (state_of (process_known_event e st ev cur)) = jn1"
      by (auto simp: process_known_event_store Let_def cur1_def jn1_def split: option.splits)
    with ok1 good0 show ?thesis unfolding jn1_def by blast
  next
    case False
    then obtain flow where fl: "get_node_state_flow e (status cur) (event_type ev)
          (status (event_node ev)) = Some flow"
        and nf: "from_status flow \<noteq> NodeStatus_SUCCEEDED" "event_type ev \<noteq> NodeEventType_exit"
      by (auto split: option.splits)
    define r where "r = should_relaunch_node e
        (process_node_events (st\<lparr>job_nodes := jn2\<rparr>) flow cur2) cur2 flow"
    define n3 where "n3 = fst (snd r)"
    have store: "job_nodes (state_of (process_known_event e st ev cur))
        = (if fst r then job_nodes (state_of (relaunch e
                 (st\<lparr>job_nodes := jn2, remove_exited_node := remove_exited_node st\<rparr>) n3))
           else jn2)"
      using fl nf
      by (simp add: process_known_event_store Let_def cur1_def [symmetric] jn1_def [symmetric]
          cur2_def [symmetric] jn2_def [symmetric] r_def [symmetric] n3_def)
    show ?thesis
    proof (cases "fst r")
      case nr: False
      with store have "job_nodes (state_of (process_known_event e st ev cur)) = jn2" by simp
      with ok2 g1 show ?thesis unfolding jn2_def by blast
    next
      case sr: True
      have n3: "type_n n3 = type_n cur" "id_n n3 = id_n cur"
          "max_relaunch_count n3 = max_relaunch_count cur" "relaunch_count n3 = c + 1"
        using k2 sr
        by (simp_all add: n3_def r_def should_relaunch_node_type should_relaunch_node_id
            should_relaunch_node_max should_relaunch_node_count)
      have bud: "exit_reason (event_node ev) = NodeExitReason_KILLED \<or> c < max_relaunch_count cur"
        using should_relaunch_node_budget [of cur2 e
            "process_node_events (st\<lparr>job_nodes := jn2\<rparr>) flow cur2" flow] sr k2
        by (auto simp: r_def)
      have c_ge: "relaunch_count cur \<le> c" by (simp add: c_def)
      have ok3: "ok (n3\<lparr>relaunchable := False\<rparr>)"
        using n3 bud c_ge by (simp add: ok_def)
      show ?thesis
      proof (cases "type_n n3 \<in> set [NodeType_WORKER, NodeType_PS, NodeType_EVALUATOR,
          NodeType_CHIEF, NodeType_MASTER]")
        case True
        with store sr have "job_nodes (state_of (process_known_event e st ev cur))
            = update_job_node (n3\<lparr>relaunchable := False\<rparr>)
                (snd (relaunch_node e (if type_n n3 = NodeType_MASTER then NodeType_CHIEF else type_n n3)
                       n3 (remove_exited_node st) jn2))"
          by (simp add: relaunch_store)
        with ok3 good_rel [OF g2] show ?thesis by blast
      next
        case False
        with store sr have "job_nodes (state_of (process_known_event e st ev cur)) = jn2"
          by (simp add: relaunch_store)
        with ok2 g1 show ?thesis unfolding jn2_def by blast
      qed
    qed
  qed
  then obtain x jn where x: "ok x" and jn: "good jn"
      and f: "job_nodes (state_of (process_known_event e st ev cur)) = update_job_node x jn"
    by blast
  from good_upd [OF jn x] at_upd [OF x, of jn] x f show ?thesis
    unfolding good_def ok_def c_def by auto
qed

lemma process_event_count_step:
  assumes keeps: "\<forall>mgr n b jn t i m. job_node jn t i = Some m
        \<longrightarrow> job_node (snd (relaunch_node e mgr n b jn)) t i = Some m"
    and own: "\<forall>mgr n b jn. stored_under_own_key jn
        \<longrightarrow> stored_under_own_key (snd (relaunch_node e mgr n b jn))"
    and st: "stored_under_own_key (job_nodes st)"
    and m: "job_node (job_nodes st) t i = Some m"
  shows "stored_under_own_key (job_nodes (state_of (process_event e st ev)))
    \<and> (\<exists>m'. job_node (job_nodes (state_of (process_event e st ev))) t i = Some m'
          \<and> max_relaunch_count m' = max_relaunch_count m
          \<and> relaunch_count m \<le> relaunch_count m'
          \<and> (if type_n (event_node ev) = t \<and> id_n (event_node ev) = i
              then relaunch_count m' \<le> max (relaunch_count m) (relaunch_count (event_node ev)) + 1
                 \<and> (relaunch_count m' = max (relaunch_count m) (relaunch_count (event_node ev)) + 1
                      \<longrightarrow> exit_reason (event_node ev) = NodeExitReason_KILLED
                          \<or> max (relaunch_count m) (relaunch_count (event_node ev))
                              < max_relaunch_count m)
              else m' = m))"
proof -
  let ?evn = "event_node ev"
  let ?st0 = "if (event_type ev = NodeEventType_DELETED \<or> status ?evn = NodeStatus_DELETED)
        \<and> \<not> is_positive_exit (exit_reason ?evn)
      then st\<lparr>pod_queries := pod_queries st @ [get_pod_unique_labels st ?evn]\<rparr> else st"
  have j0: "job_nodes ?st0 = job_nodes st" by simp
  have "job_nodes (state_of (process_event e st ev)) = job_nodes st
      \<or> (\<exists>cur. job_node (job_nodes st) (type_n ?evn) (id_n ?evn) = Some cur
            \<and> process_event e st ev = process_known_event e ?st0 ev cur)"
    by (auto simp: process_event_def Let_def job_node_def split: option.splits)
  then show ?thesis
  proof
    assume "job_nodes (state_of (process_event e st ev)) = job_nodes st"
    with st m show ?thesis by auto
  next
    assume "\<exists>cur. job_node (job_nodes st) (type_n ?evn) (id_n ?evn) = Some cur
            \<and> process_event e st ev = process_known_event e ?st0 ev cur"
    then obtain cur where cur: "job_node (job_nodes st) (type_n ?evn) (id_n ?evn) = Some cur"
        and pe: "process_event e st ev = process_known_event e ?st0 ev cur"
      by blast
    from st cur have key: "type_n cur = type_n ?evn \<and> id_n cur = id_n ?evn"
      by (rule stored_under_own_keyD)
    from st have st0: "stored_under_own_key (job_nodes ?st0)" by simp
    note step = process_known_event_count_step [OF keeps own st0, of ev cur, unfolded j0 pe [symmetric]]
    show ?thesis
    proof (cases "type_n ?evn = t \<and> id_n ?evn = i")
      case True
      with cur m have "cur = m" by simp
      with step key True show ?thesis by auto
    next
      case False
      with step key m show ?thesis by auto
    qed
  qed
qed

lemma process_events_count:
  assumes keeps: "\<forall>mgr n b jn t i m. job_node jn t i = Some m
        \<longrightarrow> job_node (snd (relaunch_node e mgr n b jn)) t i = Some m"
    and own: "\<forall>mgr n b jn. stored_under_own_key jn
        \<longrightarrow> stored_under_own_key (snd (relaunch_node e mgr n b jn))"
  shows "stored_under_own_key (job_nodes st) \<Longrightarrow> job_node (job_nodes st) t i = Some m
    \<Longrightarrow> \<exists>m'. job_node (job_nodes (process_events e st evs)) t i = Some m'
          \<and> max_relaunch_count m' = max_relaunch_count m
          \<and> relaunch_count m \<le> relaunch_count m'
          \<and> ((\<forall>ev\<in>set evs. type_n (event_node ev) = t \<and> id_n (event_node ev) = i
                  \<longrightarrow> exit_reason (event_node ev) \<noteq> NodeExitReason_KILLED
                      \<and> relaunch_count (event_node ev) \<le> max_relaunch_count m)
               \<and> relaunch_count m \<le> max_relaunch_count m
              \<longrightarrow> relaunch_count m' \<le> max_relaunch_count m')"
proof (induction evs arbitrary: st m)
  case Nil
  then show ?case by simp
next
  case (Cons ev evs)
  let ?s1 = "state_of (process_event e st ev)"
  from process_event_count_step [OF keeps own Cons.prems, of ev]
  obtain m1 where s1: "stored_under_own_key (job_nodes ?s1)"
    and l1: "job_node (job_nodes ?s1) t i = Some m1"
    and mx1: "max_relaunch_count m1 = max_relaunch_count m"
    and mono1: "relaunch_count m \<le> relaunch_count m1"
    and b1: "if type_n (event_node ev) = t \<and> id_n (event_node ev) = i
              then relaunch_count m1 \<le> max (relaunch_count m) (relaunch_count (event_node ev)) + 1
                 \<and> (relaunch_count m1 = max (relaunch_count m) (relaunch_count (event_node ev)) + 1
                      \<longrightarrow> exit_reason (event_node ev) = NodeExitReason_KILLED
                          \<or> max (relaunch_count m) (relaunch_count (event_node ev))
                              < max_relaunch_count m)
              else m1 = m"
    by blast
  have inv1: "relaunch_count m1 \<le> max_relaunch_count m1"
    if "type_n (event_node ev) = t \<and> id_n (event_node ev) = i
          \<longrightarrow> exit_reason (event_node ev) \<noteq> NodeExitReason_KILLED
              \<and> relaunch_count (event_node ev) \<le> max_relaunch_count m"
      and "relaunch_count m \<le> max_relaunch_count m"
    using that b1 mx1 by (auto split: if_splits)
  show ?case
  proof (cases "\<exists>st'. process_event e st ev = ProcessExit st'")
    case True
    then have "process_events e st (ev # evs) = ?s1" by auto
    with l1 mx1 mono1 inv1 show ?thesis by auto
  next
    case False
    then have eq: "process_events e st (ev # evs) = process_events e ?s1 evs"
      by (cases "process_event e st ev") simp_all
    from Cons.IH [OF s1 l1]
    obtain m' where l2: "job_node (job_nodes (process_events e ?s1 evs)) t i = Some m'"
      and mx2: "max_relaunch_count m' = max_relaunch_count m1"
      and mono2: "relaunch_count m1 \<le> relaunch_count m'"
      and b2: "(\<forall>ev\<in>set evs. type_n (event_node ev) = t \<and> id_n (event_node ev) = i
                  \<longrightarrow> exit_reason (event_node ev) \<noteq> NodeExitReason_KILLED
                      \<and> relaunch_count (event_node ev) \<le> max_relaunch_count m1)
               \<and> relaunch_count m1 \<le> max_relaunch_count m1
              \<longrightarrow> relaunch_count m' \<le> max_relaunch_count m'"
      by blast
    from l2 mx2 mono2 b2 mx1 mono1 inv1 eq show ?thesis by auto
  qed
qed

lemma fold_max_ge_init:
  "a \<le> fold max xs (a::int)"
proof (induction xs arbitrary: a)
  case Nil
  show ?case by simp
next
  case (Cons x xs)
  have "a \<le> max x a" by simp
  also have "max x a \<le> fold max xs (max x a)" by (rule Cons.IH)
  finally show ?case by simp
qed

lemma fold_max_ge:
  "x \<in> set xs \<Longrightarrow> x \<le> fold max xs (a::int)"
proof (induction xs arbitrary: a)
  case Nil
  then show ?case by simp
next
  case (Cons y ys)
  show ?case
  proof (cases "x = y")
    case True
    have "x \<le> max y a" using True by simp
    also have "max y a \<le> fold max ys (max y a)" by (rule fold_max_ge_init)
    finally show ?thesis by simp
  next
    case False
    with Cons.prems have "x \<in> set ys" by simp
    then show ?thesis using Cons.IH by simp
  qed
qed

lemma next_node_id_fresh:
  "job_node jn t (next_node_id jn t) = None"
proof (cases "map_of jn t")
  case None
  then show ?thesis by (simp add: job_node_def)
next
  case (Some nodes)
  have "fold max (map fst nodes) (- 1) + 1 \<notin> fst ` set nodes"
  proof
    assume "fold max (map fst nodes) (- 1) + 1 \<in> fst ` set nodes"
    then have "fold max (map fst nodes) (- 1) + 1 \<in> set (map fst nodes)" by simp
    then have "fold max (map fst nodes) (- 1) + 1 \<le> fold max (map fst nodes) (- 1)"
      by (rule fold_max_ge)
    then show False by simp
  qed
  then have "map_of nodes (fold max (map fst nodes) (- 1) + 1) = None"
    by (simp add: map_of_eq_None_iff)
  with Some show ?thesis by (simp add: job_node_def next_node_id_def)
qed

lemma example_relaunch_node_adds:
  "(\<forall>mgr n b jn t i m. job_node jn t i = Some m
        \<longrightarrow> job_node (snd (relaunch_node example_env mgr n b jn)) t i = Some m)
   \<and> (\<forall>mgr n b jn. stored_under_own_key jn
        \<longrightarrow> stored_under_own_key (snd (relaunch_node example_env mgr n b jn)))"
proof (intro conjI allI impI)
  fix mgr :: node_type and n :: node and b :: bool and jn :: job_nodes
    and t :: node_type and i :: int and m :: node
  assume a: "job_node jn t i = Some m"
  have "\<not> (t = type_n n \<and> i = next_node_id jn (type_n n))"
    using a next_node_id_fresh [of jn "type_n n"] by auto
  with a show "job_node (snd (relaunch_node example_env mgr n b jn)) t i = Some m"
    by (auto simp: example_env_def example_relaunch_node_def Let_def job_node_update_job_node)
next
  fix mgr :: node_type and n :: node and b :: bool and jn :: job_nodes
  assume "stored_under_own_key jn"
  then show "stored_under_own_key (snd (relaunch_node example_env mgr n b jn))"
    by (simp add: example_env_def example_relaunch_node_def Let_def
        stored_under_own_key_update_job_node)
qed

text \<open>
  A worker whose exit reason is \<^verbatim>\<open>killed\<close> and whose three relaunches are used up is
  relaunched all the same: the budget is only looked at for the other exit reasons. Its
  count becomes four, above its maximum, in \<^verbatim>\<open>_should_relaunch\<close> and in the store after
  the event. An event that carries the count nine leaves nine in the store.
\<close>

theorem relaunch_count_budget_counterexample:
  "relaunch_count (example_node\<lparr>exit_reason := NodeExitReason_KILLED, relaunch_count := 3\<rparr>)
     = max_relaunch_count (example_node\<lparr>exit_reason := NodeExitReason_KILLED, relaunch_count := 3\<rparr>)
   \<and> relaunch_count (fst (snd (should_relaunch_node example_env example_manager
        (example_node\<lparr>exit_reason := NodeExitReason_KILLED, relaunch_count := 3\<rparr>) example_flow))) = 4
   \<and> \<not> (4 \<le> min (max_relaunch_count (fst (snd (should_relaunch_node example_env example_manager
        (example_node\<lparr>exit_reason := NodeExitReason_KILLED, relaunch_count := 3\<rparr>) example_flow))))
          MAX_POD_RELAUNCH_COUNT)
   \<and> map_option (\<lambda>n. (relaunch_count n, max_relaunch_count n))
        (job_node (job_nodes (process_events example_env
           (example_manager\<lparr>job_nodes := [(NodeType_WORKER, [(4, example_node\<lparr>relaunch_count := 3\<rparr>)])]\<rparr>)
           [\<lparr>event_type = NodeEventType_MODIFIED,
             event_node = example_node\<lparr>status := NodeStatus_FAILED,
               exit_reason := NodeExitReason_KILLED, relaunch_count := 3\<rparr>\<rparr>]))
         NodeType_WORKER 4) = Some (4, 3)
   \<and> map_option (\<lambda>n. (relaunch_count n, max_relaunch_count n))
        (job_node (job_nodes (process_events example_env example_manager
           [\<lparr>event_type = NodeEventType_MODIFIED,
             event_node = example_node\<lparr>relaunch_count := 9\<rparr>\<rparr>]))
         NodeType_WORKER 4) = Some (9, 3)"
  by (simp add: example_defs example_state_flow_def process_event_def process_known_event_def
      is_positive_exit_def update_info_def Let_def update_job_node_def update_status_def
      set_exit_reason_def process_node_events_def should_relaunch_node_def
      recheck_should_relaunch_def relaunch_def ScalePlan_def example_relaunch_node_def
      next_node_id_def job_node_def MAX_POD_RELAUNCH_COUNT_def)

text \<open>
  C2 (amended). With node managers whose relaunch only adds nodes to the store, and a
  store that keeps every node under its own type and id: for every node and every
  history of processed events the relaunch count of the node never decreases and its
  maximum stays; the count stays within min(max_relaunch_count, 5) when it starts within
  a maximum of five at most and no event for the node carries the exit reason
  \<^verbatim>\<open>killed\<close> or a relaunch count above the maximum. \<^verbatim>\<open>_should_relaunch\<close> raises the
  count by one at most and, for an exit reason other than \<^verbatim>\<open>killed\<close>, leaves a count
  that has reached the maximum as it is; a node whose exit reason is \<^verbatim>\<open>killed\<close> gets
  its count raised whatever the count, whenever the transition asks for a relaunch,
  relaunch is enabled, the node is relaunchable and the job is not stopping. The budgets
  the manager computes for workers and parameter servers are five at most.
\<close>

theorem relaunch_count_over_events:
  assumes "\<forall>mgr n b jn t i m. job_node jn t i = Some m
        \<longrightarrow> job_node (snd (relaunch_node e mgr n b jn)) t i = Some m"
    and "\<forall>mgr n b jn. stored_under_own_key jn
        \<longrightarrow> stored_under_own_key (snd (relaunch_node e mgr n b jn))"
    and "stored_under_own_key (job_nodes st)"
    and "job_node (job_nodes st) t i = Some m"
  shows "(\<exists>m'. job_node (job_nodes (process_events e st evs)) t i = Some m'
          \<and> max_relaunch_count m' = max_relaunch_count m
          \<and> relaunch_count m \<le> relaunch_count m'
          \<and> ((\<forall>ev\<in>set evs. type_n (event_node ev) = t \<and> id_n (event_node ev) = i
                  \<longrightarrow> exit_reason (event_node ev) \<noteq> NodeExitReason_KILLED
                      \<and> relaunch_count (event_node ev) \<le> max_relaunch_count m)
               \<and> relaunch_count m \<le> max_relaunch_count m
               \<and> max_relaunch_count m \<le> MAX_POD_RELAUNCH_COUNT
              \<longrightarrow> relaunch_count m' \<le> min (max_relaunch_count m') MAX_POD_RELAUNCH_COUNT))
    \<and> relaunch_count n \<le> relaunch_count (fst (snd (should_relaunch_node e s n flow)))
    \<and> relaunch_count (fst (snd (should_relaunch_node e s n flow))) \<le> relaunch_count n + 1
    \<and> (exit_reason n \<noteq> NodeExitReason_KILLED \<and> max_relaunch_count n \<le> relaunch_count n
        \<longrightarrow> relaunch_count (fst (snd (should_relaunch_node e s n flow))) = relaunch_count n)
    \<and> (exit_reason n = NodeExitReason_KILLED \<and> should_relaunch flow \<and> enable_relaunch_node s
          \<and> relaunchable n \<and> job_stage s \<noteq> JobStage_JOB_STOPPING
        \<longrightarrow> relaunch_count (fst (snd (should_relaunch_node e s n flow))) = relaunch_count n + 1)
    \<and> relaunch_on_worker_failure worker_restart_count \<le> MAX_POD_RELAUNCH_COUNT
    \<and> ps_relaunch_max_num ps_restart_count \<le> MAX_POD_RELAUNCH_COUNT"
proof -
  let ?n' = "fst (snd (should_relaunch_node e s n flow))"
  from process_events_count [OF assms, of evs]
  obtain m' where l: "job_node (job_nodes (process_events e st evs)) t i = Some m'"
    and mx: "max_relaunch_count m' = max_relaunch_count m"
    and mono: "relaunch_count m \<le> relaunch_count m'"
    and b: "(\<forall>ev\<in>set evs. type_n (event_node ev) = t \<and> id_n (event_node ev) = i
                  \<longrightarrow> exit_reason (event_node ev) \<noteq> NodeExitReason_KILLED
                      \<and> relaunch_count (event_node ev) \<le> max_relaunch_count m)
               \<and> relaunch_count m \<le> max_relaunch_count m
              \<longrightarrow> relaunch_count m' \<le> max_relaunch_count m'"
    by blast
  have hist: "\<exists>m'. job_node (job_nodes (process_events e st evs)) t i = Some m'
          \<and> max_relaunch_count m' = max_relaunch_count m
          \<and> relaunch_count m \<le> relaunch_count m'
          \<and> ((\<forall>ev\<in>set evs. type_n (event_node ev) = t \<and> id_n (event_node ev) = i
                  \<longrightarrow> exit_reason (event_node ev) \<noteq> NodeExitReason_KILLED
                      \<and> relaunch_count (event_node ev) \<le> max_relaunch_count m)
               \<and> relaunch_count m \<le> max_relaunch_count m
               \<and> max_relaunch_count m \<le> MAX_POD_RELAUNCH_COUNT
              \<longrightarrow> relaunch_count m' \<le> min (max_relaunch_count m') MAX_POD_RELAUNCH_COUNT)"
    using l mx mono b by (intro exI [of _ m']) auto
  have c: "relaunch_count ?n'
      = (if fst (should_relaunch_node e s n flow) then relaunch_count n + 1 else relaunch_count n)"
    by (rule should_relaunch_node_count)
  have bud: "exit_reason n \<noteq> NodeExitReason_KILLED \<Longrightarrow> fst (should_relaunch_node e s n flow)
      \<Longrightarrow> relaunch_count n < max_relaunch_count n"
    by (rule should_relaunch_node_budget)
  have killed: "exit_reason n = NodeExitReason_KILLED \<and> should_relaunch flow \<and> enable_relaunch_node s
          \<and> relaunchable n \<and> job_stage s \<noteq> JobStage_JOB_STOPPING
        \<longrightarrow> relaunch_count ?n' = relaunch_count n + 1"
    by (simp add: should_relaunch_node_killed)
  have caps: "relaunch_on_worker_failure worker_restart_count \<le> MAX_POD_RELAUNCH_COUNT
      \<and> ps_relaunch_max_num ps_restart_count \<le> MAX_POD_RELAUNCH_COUNT"
    by (simp add: relaunch_on_worker_failure_def ps_relaunch_max_num_def)
  have sr: "relaunch_count n \<le> relaunch_count ?n' \<and> relaunch_count ?n' \<le> relaunch_count n + 1
      \<and> (exit_reason n \<noteq> NodeExitReason_KILLED \<and> max_relaunch_count n \<le> relaunch_count n
          \<longrightarrow> relaunch_count ?n' = relaunch_count n)"
    using c bud by auto
  from hist sr killed caps show ?thesis by blast
qed

theorem relaunch_count_over_events_witness:
  "stored_under_own_key (job_nodes example_manager)
   \<and> job_node (job_nodes example_manager) NodeType_WORKER 4 = Some example_node
   \<and> (\<exists>m'. job_node (job_nodes (process_events example_env example_manager
          [\<lparr>event_type = NodeEventType_MODIFIED,
            event_node = example_node\<lparr>status := NodeStatus_FAILED,
              exit_reason := NodeExitReason_UNKNOWN_ERROR\<rparr>\<rparr>,
           \<lparr>event_type = NodeEventType_DELETED,
            event_node = example_node\<lparr>status := NodeStatus_DELETED\<rparr>\<rparr>]))
         NodeType_WORKER 4 = Some m'
        \<and> relaunch_count example_node \<le> relaunch_count m'
        \<and> relaunch_count m' \<le> min (max_relaunch_count m') MAX_POD_RELAUNCH_COUNT)
   \<and> relaunch_count (fst (snd (should_relaunch_node example_env example_manager
        (example_node\<lparr>exit_reason := NodeExitReason_UNKNOWN_ERROR, relaunch_count := 3\<rparr>)
        example_flow))) = 3
   \<and> relaunch_count (fst (snd (should_relaunch_node example_env example_manager
        (example_node\<lparr>exit_reason := NodeExitReason_KILLED, relaunch_count := 3\<rparr>)
        example_flow))) = 4
   \<and> relaunch_on_worker_failure 7 \<le> 5"
proof -
  note adds = example_relaunch_node_adds
  have own: "stored_under_own_key (job_nodes example_manager)"
    by (simp add: example_manager_def example_node_def stored_under_own_key_def)
  have found: "job_node (job_nodes example_manager) NodeType_WORKER 4 = Some example_node"
    by (simp add: example_manager_def job_node_def)
  note th = relaunch_count_over_events [OF adds [THEN conjunct1] adds [THEN conjunct2] own found]
  from th [where evs = "[\<lparr>event_type = NodeEventType_MODIFIED,
            event_node = example_node\<lparr>status := NodeStatus_FAILED,
              exit_reason := NodeExitReason_UNKNOWN_ERROR\<rparr>\<rparr>,
           \<lparr>event_type = NodeEventType_DELETED,
            event_node = example_node\<lparr>status := NodeStatus_DELETED\<rparr>\<rparr>]"
      and n = "example_node\<lparr>exit_reason := NodeExitReason_UNKNOWN_ERROR, relaunch_count := 3\<rparr>"
      and s = example_manager and flow = example_flow and worker_restart_count = 7]
    th [where evs = "[]"
      and n = "example_node\<lparr>exit_reason := NodeExitReason_KILLED, relaunch_count := 3\<rparr>"
      and s = example_manager and flow = example_flow]
    own found
  show ?thesis
    by (simp add: example_manager_def example_node_def example_flow_def
        MAX_POD_RELAUNCH_COUNT_def) blast
qed

end
